theory Spec2Isabelle
  imports Main "HOL-Library.Multiset" "HOL-Library.Char_ord" "HOL-Library.List_Lexorder"
    "HOL-Library.Product_Lexorder"
begin

section \<open>Python string primitives\<close>

text \<open>
  Strings are modelled as lists of characters restricted to the ASCII range, where
  Python's code-point order on \<open>str\<close> is the byte order of \<open>Char_ord\<close> and where
  \<open>str.isspace\<close>, \<open>str.isdigit\<close> and the regular-expression classes \<open>\s\<close>, \<open>\d\<close>,
  \<open>\w\<close> are the finite sets below.
\<close>

definition is_space :: "char \<Rightarrow> bool" where
  "is_space c \<longleftrightarrow> c \<in> {CHR 0x09, CHR 0x0A, CHR 0x0B, CHR 0x0C, CHR 0x0D,
                        CHR 0x1C, CHR 0x1D, CHR 0x1E, CHR 0x1F, CHR '' ''}"

definition is_digit :: "char \<Rightarrow> bool" where
  "is_digit c \<longleftrightarrow> c \<in> set ''0123456789''"

definition is_word :: "char \<Rightarrow> bool" where
  "is_word c \<longleftrightarrow>
     c \<in> set ''abcdefghijklmnopqrstuvwxyzABCDEFGHIJKLMNOPQRSTUVWXYZ0123456789_''"

definition digit_val :: "char \<Rightarrow> int" where
  "digit_val c = int (of_char c) - 48"

text \<open>\<open>int(s)\<close> on a string of decimal digits.\<close>

definition int_of_digits :: "string \<Rightarrow> int" where
  "int_of_digits s = foldl (\<lambda>a c. 10 * a + digit_val c) 0 s"

text \<open>\<open>s.strip()\<close>\<close>

definition py_strip :: "string \<Rightarrow> string" where
  "py_strip s = rev (dropWhile is_space (rev (dropWhile is_space s)))"

text \<open>
  Splitting into the maximal runs of characters that are not separators; \<open>cur\<close> is
  the run being read. \<open>s.split()\<close> is the instance with white space as separator.
\<close>

fun split_by :: "(char \<Rightarrow> bool) \<Rightarrow> string \<Rightarrow> string \<Rightarrow> string list" where
  "split_by sep cur [] = (if cur = [] then [] else [cur])"
| "split_by sep cur (c # cs) =
     (if sep c then (if cur = [] then split_by sep [] cs else cur # split_by sep [] cs)
      else split_by sep (cur @ [c]) cs)"

definition py_split :: "string \<Rightarrow> string list" where
  "py_split s = split_by is_space [] s"

text \<open>\<open>s.split(",", 1)\<close>: at most one split, at the first comma.\<close>

definition py_split_comma1 :: "string \<Rightarrow> string list" where
  "py_split_comma1 s =
     (if CHR '','' \<in> set s
      then [takeWhile (\<lambda>c. c \<noteq> CHR '','') s, tl (dropWhile (\<lambda>c. c \<noteq> CHR '','') s)]
      else [s])"

text \<open>\<open>sep.join(xs)\<close>\<close>

fun py_join :: "string \<Rightarrow> string list \<Rightarrow> string" where
  "py_join sep [] = []"
| "py_join sep [x] = x"
| "py_join sep (x # y # ys) = x @ sep @ py_join sep (y # ys)"

text \<open>\<open>old in s\<close> for strings: \<open>old\<close> occurs as a contiguous substring.\<close>

fun py_in :: "string \<Rightarrow> string \<Rightarrow> bool" where
  "py_in old [] = (old = [])"
| "py_in old (c # cs) = (take (length old) (c # cs) = old \<or> py_in old cs)"

text \<open>
  \<open>s.replace(old, new)\<close>: the non-overlapping occurrences of \<open>old\<close> are replaced
  from left to right; an empty \<open>old\<close> matches before every character and at the end.
\<close>

function py_replace :: "string \<Rightarrow> string \<Rightarrow> string \<Rightarrow> string" where
  "py_replace old new s =
     (if old = [] then new @ concat (map (\<lambda>c. c # new) s)
      else if s = [] then []
      else if take (length old) s = old then new @ py_replace old new (drop (length old) s)
      else hd s # py_replace old new (tl s))"
  by pat_completeness auto
termination
  by (relation "measure (\<lambda>(old, new, s). length s)") auto

declare py_replace.simps [simp del]

section \<open>Desktop variant: instructor cell of \<open>parse_rows\<close>\<close>

text \<open>
  Lines 362-375 of \<open>sf_state_scraper_interactive.py\<close>: the instructor string stored
  for a row, from the text of column 5.
\<close>

definition parse_instructor :: "string \<Rightarrow> string" where
  "parse_instructor instructor_col =
     (if py_in ''Instructors:'' instructor_col then
        (let instructor_text = py_strip (py_replace ''Instructors:'' '''' instructor_col);
             name_parts = py_split instructor_text
         in case name_parts of
              p0 # p1 # _ \<Rightarrow> p1 @ '', '' @ p0
            | [p0] \<Rightarrow> p0
            | [] \<Rightarrow> '''')
      else '''')"

section \<open>Name normalisation\<close>

text \<open>
  \<open>split_name\<close> of the desktop variant (\<open>process_instructor_names\<close>). The argument is
  \<open>None\<close> for a missing value (\<open>None\<close> or NaN).
\<close>

definition split_name :: "string option \<Rightarrow> string \<times> string" where
  "split_name instructor =
     (case instructor of
        None \<Rightarrow> ('''', '''')
      | Some s \<Rightarrow>
          if s = [] then ('''', '''')
          else (case py_split_comma1 s of
                  p0 # p1 # _ \<Rightarrow> (py_strip p0, py_strip p1)
                | _ \<Rightarrow> (py_strip s, '''')))"

text \<open>
  The name split of the web-UI variant, inline in \<open>scrape_sf_state_schedule\<close>
  (lines 315-321 of \<open>app.py\<close>).
\<close>

definition web_split_name :: "string \<Rightarrow> string \<times> string" where
  "web_split_name instructor =
     (let name_parts = py_split (py_replace '','' '''' instructor)
      in case name_parts of
           p0 # p1 # ps \<Rightarrow> (p0, py_join '' '' (p1 # ps))
         | _ \<Rightarrow> (instructor, ''''))"

section \<open>Regular expressions used by the classifiers\<close>

text \<open>
  \<open>\b\<close> holds between two neighbouring positions exactly when one of them is a word
  character and the other is not; the start and the end of the string count as
  non-word (\<open>None\<close>).
\<close>

definition is_word_opt :: "char option \<Rightarrow> bool" where
  "is_word_opt x = (case x of None \<Rightarrow> False | Some c \<Rightarrow> is_word c)"

definition word_boundary :: "char option \<Rightarrow> char option \<Rightarrow> bool" where
  "word_boundary a b \<longleftrightarrow> is_word_opt a \<noteq> is_word_opt b"

text \<open>
  The pattern \<open>\b(\d{3})\b\<close> tried at one position: \<open>prev\<close> is the character before
  the position, \<open>s\<close> the rest of the string. The result is group 1.
\<close>

definition match_here :: "char option \<Rightarrow> string \<Rightarrow> string option" where
  "match_here prev s =
     (case s of
        d1 # d2 # d3 # rest \<Rightarrow>
          if word_boundary prev (Some d1) \<and> is_digit d1 \<and> is_digit d2 \<and> is_digit d3
             \<and> word_boundary (Some d3) (case rest of [] \<Rightarrow> None | c # _ \<Rightarrow> Some c)
          then Some [d1, d2, d3] else None
      | _ \<Rightarrow> None)"

text \<open>\<open>re.search\<close>: the leftmost position where the pattern matches.\<close>

fun re_search_from :: "char option \<Rightarrow> string \<Rightarrow> string option" where
  "re_search_from prev [] = None"
| "re_search_from prev (c # cs) =
     (case match_here prev (c # cs) of
        Some g \<Rightarrow> Some g
      | None \<Rightarrow> re_search_from (Some c) cs)"

definition re_search_3digit :: "string \<Rightarrow> string option" where
  "re_search_3digit s = re_search_from None s"

text \<open>ASCII lower-casing, for the case-insensitive searches (\<open>re.I\<close>, \<open>case=False\<close>, \<open>.lower()\<close>).\<close>

definition lower_char :: "char \<Rightarrow> char" where
  "lower_char c =
     (case map_of (zip ''ABCDEFGHIJKLMNOPQRSTUVWXYZ'' ''abcdefghijklmnopqrstuvwxyz'') c of
        Some l \<Rightarrow> l
      | None \<Rightarrow> c)"

definition py_lower :: "string \<Rightarrow> string" where
  "py_lower s = map lower_char s"

text \<open>
  A case-insensitive search for an alternation of literal keywords: some keyword
  occurs in the text, letter case ignored.
\<close>

definition search_keywords_ci :: "string list \<Rightarrow> string \<Rightarrow> bool" where
  "search_keywords_ci kws text = list_ex (\<lambda>kw. py_in (py_lower kw) (py_lower text)) kws"

section \<open>Desktop variant: rows and classification\<close>

record raw_row =
  course_type :: string
  title :: string
  units :: string
  course_code :: string
  instructor :: string
  enrolled :: int
  note_field :: string
  course_link :: "string option"
  class_number :: string

datatype level = ug | grad

record classified_row = raw_row +
  level :: level
  supervision :: bool

record named_row = classified_row +
  last_name :: string
  first_name :: string

text \<open>\<open>is_grad\<close> and \<open>is_supervision\<close>, the local functions of \<open>classify_courses\<close>.\<close>

definition is_grad :: "raw_row \<Rightarrow> bool" where
  "is_grad row =
     (case re_search_3digit (course_code row) of
        Some g \<Rightarrow> int_of_digits g \<ge> 700
      | None \<Rightarrow> False)"

definition is_supervision :: "raw_row \<Rightarrow> bool" where
  "is_supervision row =
     search_keywords_ci
       [''Independent'', ''Internship'', ''Supervision'', ''Thesis'', ''Field'', ''Research'']
       (title row)"

definition classify_row :: "raw_row \<Rightarrow> classified_row" where
  "classify_row r =
     \<lparr>course_type = course_type r, title = title r, units = units r,
      course_code = course_code r, instructor = instructor r, enrolled = enrolled r,
      note_field = note_field r, course_link = course_link r, class_number = class_number r,
      level = (if is_grad r then grad else ug), supervision = is_supervision r\<rparr>"

definition classify_courses :: "raw_row list \<Rightarrow> classified_row list" where
  "classify_courses df = map classify_row df"

definition name_row :: "classified_row \<Rightarrow> named_row" where
  "name_row r =
     (let (l, f) = split_name (Some (instructor r)) in
      \<lparr>course_type = course_type r, title = title r, units = units r,
       course_code = course_code r, instructor = instructor r, enrolled = enrolled r,
       note_field = note_field r, course_link = course_link r, class_number = class_number r,
       level = level r, supervision = supervision r,
       last_name = l, first_name = f\<rparr>)"

definition process_instructor_names :: "classified_row list \<Rightarrow> named_row list" where
  "process_instructor_names df = map name_row df"

text \<open>
  One table row of \<open>parse_rows\<close>: \<open>tds\<close> are the texts of its cells and \<open>href\<close> the
  \<open>href\<close> attribute of its first anchor, if there is one. \<open>None\<close> is a skipped row.
\<close>

definition parse_row :: "string \<Rightarrow> string list \<Rightarrow> string option \<Rightarrow> raw_row option" where
  "parse_row subject tds href =
     (if tds = [] \<or> length tds < 3 then None
      else if py_in ''course type'' (py_lower (py_join '' '' tds))
              \<and> py_in ''class number'' (py_lower (py_join '' '' tds)) then None
      else
        (let td_data = tds @ replicate (12 - length tds) '''';
             course_type = td_data ! 0;
             title = td_data ! 1;
             units = td_data ! 2;
             class_number = td_data ! 3;
             course_link =
               (case href of
                  None \<Rightarrow> None
                | Some l \<Rightarrow>
                    if l \<noteq> [] \<and> take 4 l \<noteq> ''http''
                    then Some (''https://webapps.sfsu.edu'' @ l) else Some l);
             course_code = subject @ '' '' @ class_number;
             instructor = parse_instructor (td_data ! 5);
             note_parts =
               (if py_in ''Cross-Listed'' course_type then [''cross-listed''] else [])
               @ (if py_in ''Paired'' course_type then [''paired''] else [])
         in if course_code = [] \<and> instructor = [] then None
            else if instructor = [] \<or> py_strip instructor = [] then None
            else Some \<lparr>course_type = course_type, title = title, units = units,
                        course_code = course_code, instructor = instructor, enrolled = 0,
                        note_field = py_join ''; '' note_parts, course_link = course_link,
                        class_number = class_number\<rparr>))"

definition parse_rows :: "string \<Rightarrow> (string list \<times> string option) list \<Rightarrow> raw_row list" where
  "parse_rows subject trs = List.map_filter (\<lambda>(tds, href). parse_row subject tds href) trs"

section \<open>Desktop variant: the summary table\<close>

text \<open>
  A data frame is its column labels and its rows, each row a dictionary from column
  label to cell. \<open>NaN\<close> is the missing value of pandas.
\<close>

datatype cell = Str string | Num int | NaN

record dataframe =
  columns :: "string list"
  records :: "(string \<times> cell) list list"

text \<open>\<open>bucket\<close>, the local function of \<open>create_summary_table\<close>.\<close>

definition bucket :: "named_row \<Rightarrow> string" where
  "bucket r =
     (if level r = ug \<and> \<not> supervision r then ''ug_lecture''
      else if level r = ug \<and> supervision r then ''ug_superv''
      else if level r = grad \<and> \<not> supervision r then ''grad_lecture''
      else ''grad_superv'')"

text \<open>The helper columns: \<open>class_count\<close> is 1 and \<open>student_count\<close> is \<open>enrolled\<close>.\<close>

definition helper_column :: "string \<Rightarrow> named_row \<Rightarrow> int" where
  "helper_column v r = (if v = ''class_count'' then 1 else enrolled r)"

text \<open>
  \<open>pivot_table\<close> with index (Last Name, First Name), columns \<open>bucket\<close>, values
  \<open>class_count\<close> and \<open>student_count\<close>, \<open>aggfunc="sum"\<close> and \<open>fill_value=0\<close>: one row per
  index key, the keys sorted; one column per pair of a value and a bucket that occurs in
  the frame, sorted; a cell is the sum of the value over the rows of the key in the
  bucket, and the fill value where the key has no row in the bucket.
\<close>

definition group_key :: "named_row \<Rightarrow> string \<times> string" where
  "group_key r = (last_name r, first_name r)"

definition group_keys :: "named_row list \<Rightarrow> (string \<times> string) list" where
  "group_keys df = sort (remdups (map group_key df))"

definition group_rows :: "named_row list \<Rightarrow> string \<times> string \<Rightarrow> named_row list" where
  "group_rows df k = filter (\<lambda>r. group_key r = k) df"

definition pivot_columns :: "named_row list \<Rightarrow> (string \<times> string) list" where
  "pivot_columns df =
     concat (map (\<lambda>v. map (\<lambda>b. (v, b)) (sort (remdups (map bucket df))))
                 [''class_count'', ''student_count''])"

definition pivot_cell :: "named_row list \<Rightarrow> string \<times> string \<Rightarrow> string \<times> string \<Rightarrow> int" where
  "pivot_cell df k vb =
     (let rs = filter (\<lambda>r. bucket r = snd vb) (group_rows df k)
      in if rs = [] then 0 else sum_list (map (helper_column (fst vb)) rs))"

text \<open>
  The flattening of the column index, \<open>[f"{v}_{k}" for k, v in pivot.columns]\<close>, where
  \<open>k\<close> is the value and \<open>v\<close> the bucket, and \<open>reset_index\<close>.
\<close>

definition flat_name :: "string \<times> string \<Rightarrow> string" where
  "flat_name kv = snd kv @ ''_'' @ fst kv"

definition pivot_table :: "named_row list \<Rightarrow> dataframe" where
  "pivot_table df =
     \<lparr>columns = [''Last Name'', ''First Name''] @ map flat_name (pivot_columns df),
      records =
        map (\<lambda>k. [(''Last Name'', Str (fst k)), (''First Name'', Str (snd k))]
                  @ map (\<lambda>vb. (flat_name vb, Num (pivot_cell df k vb))) (pivot_columns df))
            (group_keys df)\<rparr>"

definition column_mapping :: "(string \<times> string) list" where
  "column_mapping =
     [(''ug_lecture_class_count'', ''Total # of UG classes''),
      (''ug_lecture_student_count'', ''Total # of UG students from Column D''),
      (''ug_superv_class_count'', ''Total # of UG supervion classes''),
      (''ug_superv_student_count'', ''Total # of UG students from Column F''),
      (''grad_lecture_class_count'', ''Total # of Grad classes''),
      (''grad_lecture_student_count'', ''Total # of Grad students from Colum H''),
      (''grad_superv_class_count'', ''Total # of Grad supervion classes''),
      (''grad_superv_student_count'', ''Total # of Grad student from Column J'')]"

definition rename_label :: "(string \<times> string) list \<Rightarrow> string \<Rightarrow> string" where
  "rename_label m c = (case map_of m c of Some c' \<Rightarrow> c' | None \<Rightarrow> c)"

definition rename_columns :: "(string \<times> string) list \<Rightarrow> dataframe \<Rightarrow> dataframe" where
  "rename_columns m d =
     \<lparr>columns = map (rename_label m) (columns d),
      records = map (map (\<lambda>cx. (rename_label m (fst cx), snd cx))) (records d)\<rparr>"

text \<open>
  The note of a group:
  \<open>"; ".join(sorted(set(filter(None, s))))\<close> over the group's \<open>note\<close> values.
\<close>

definition collect_notes :: "string list \<Rightarrow> string" where
  "collect_notes s = py_join ''; '' (sort (remdups (filter (\<lambda>n. n \<noteq> []) s)))"

definition notes_table :: "named_row list \<Rightarrow> ((string \<times> string) \<times> string) list" where
  "notes_table df =
     map (\<lambda>k. (k, collect_notes (map note_field (group_rows df k)))) (group_keys df)"

text \<open>
  The left merge on (Last Name, First Name): every row of the pivot gets a \<open>note\<close>
  cell, \<open>NaN\<close> when the notes have no row for its key.
\<close>

definition record_key :: "(string \<times> cell) list \<Rightarrow> (string \<times> string) option" where
  "record_key rec =
     (case (map_of rec ''Last Name'', map_of rec ''First Name'') of
        (Some (Str l), Some (Str f)) \<Rightarrow> Some (l, f)
      | _ \<Rightarrow> None)"

definition merge_notes ::
  "((string \<times> string) \<times> string) list \<Rightarrow> (string \<times> cell) list \<Rightarrow> (string \<times> cell) list" where
  "merge_notes notes rec =
     rec @ [(''note'',
             (case record_key rec of
                None \<Rightarrow> NaN
              | Some k \<Rightarrow> (case map_of notes k of None \<Rightarrow> NaN | Some n \<Rightarrow> Str n)))]"

definition fillna :: "cell \<Rightarrow> (string \<times> cell) list \<Rightarrow> (string \<times> cell) list" where
  "fillna d rec = map (\<lambda>cx. (fst cx, if snd cx = NaN then d else snd cx)) rec"

definition column_order :: "string list" where
  "column_order =
     [''Last Name'',
      ''First Name'',
      ''Total # of UG classes'',
      ''Total # of UG students from Column D'',
      ''Total # of UG supervion classes'',
      ''Total # of UG students from Column F'',
      ''Total # of Grad classes'',
      ''Total # of Grad students from Colum H'',
      ''Total # of Grad supervion classes'',
      ''Total # of Grad student from Column J'',
      ''note'']"

text \<open>\<open>final_df[existing_columns]\<close>: the listed columns, in the listed order.\<close>

definition select_columns :: "string list \<Rightarrow> (string \<times> cell) list \<Rightarrow> (string \<times> cell) list" where
  "select_columns cols rec =
     concat (map (\<lambda>c. case map_of rec c of Some x \<Rightarrow> [(c, x)] | None \<Rightarrow> []) cols)"

definition create_summary_table :: "named_row list \<Rightarrow> dataframe" where
  "create_summary_table df =
     (let pivot = rename_columns column_mapping (pivot_table df);
          notes = notes_table df;
          final_columns = columns pivot @ [''note''];
          final_records = map (\<lambda>rec. fillna (Num 0) (merge_notes notes rec)) (records pivot);
          existing_columns = filter (\<lambda>col. col \<in> set final_columns) column_order
      in \<lparr>columns = existing_columns,
          records = map (select_columns existing_columns) final_records\<rparr>)"


section \<open>Web-UI variant: rows and workload summary\<close>

datatype exn = TimeoutException | NoSuchElementException | WebDriverException | ValueError

record web_row =
  Class_Nbr :: string
  Section :: string
  Component :: string
  Course_Number :: string
  Instructor :: string
  Course_Title :: string
  Enrollment :: int

text \<open>\<open>s.isdigit()\<close>\<close>

definition py_isdigit :: "string \<Rightarrow> bool" where
  "py_isdigit s \<longleftrightarrow> s \<noteq> [] \<and> list_all is_digit s"

text \<open>
  The instructor of a result row (lines 251-261 of \<open>app.py\<close>): the first of the cells
  7, 8 and 9 whose text is neither empty nor a placeholder, and \<open>"TBA"\<close> otherwise.
  \<open>cells\<close> are the texts of the row's cells.
\<close>

definition web_instructor :: "string list \<Rightarrow> string" where
  "web_instructor cells =
     (let instructor =
            (case find (\<lambda>t. t \<noteq> [] \<and> t \<notin> set [''TBA'', ''Staff'', ''''])
                       (map py_strip (take 3 (drop 7 cells))) of
               Some t \<Rightarrow> t
             | None \<Rightarrow> '''')
      in if instructor = [] \<or> instructor \<in> set [''TBA'', ''Staff''] then ''TBA''
         else instructor)"

definition web_parse_row :: "string list \<Rightarrow> web_row option" where
  "web_parse_row cells =
     (if length cells \<ge> 8 then
        (let first_cell_text = py_strip (cells ! 0) in
         if first_cell_text = []
            \<or> list_ex (\<lambda>keyword. py_in keyword (py_lower first_cell_text))
                       [''select'', ''class'', ''course'']
         then None
         else
           (let class_nbr = py_strip (cells ! 1);
                section = py_strip (cells ! 2);
                component = py_strip (cells ! 3)
            in if \<not> py_isdigit class_nbr then None
               else
                 (let course_match = py_split first_cell_text;
                      course_number =
                        (if length course_match > 1 then course_match ! 1 else ''000'')
                  in Some \<lparr>Class_Nbr = class_nbr, Section = section, Component = component,
                             Course_Number = course_number,
                             Instructor = web_instructor cells,
                             Course_Title = first_cell_text, Enrollment = 0\<rparr>)))
      else None)"

text \<open>The rows of the results table, the header row skipped.\<close>

definition web_parse_table :: "string list list \<Rightarrow> web_row list" where
  "web_parse_table rows = List.map_filter web_parse_row (tl rows)"

text \<open>\<open>Series.unique()\<close>: the distinct values in order of first appearance.\<close>

fun unique :: "'a list \<Rightarrow> 'a list" where
  "unique [] = []"
| "unique (x # xs) = x # unique (filter (\<lambda>y. y \<noteq> x) xs)"

text \<open>
  \<open>series.astype(str).str[:1].astype(int)\<close>: the first character of every value,
  converted to an integer. The conversion of the whole series raises \<open>ValueError\<close> as
  soon as one value does not start with a digit.
\<close>

definition first_char_int :: "string \<Rightarrow> exn + int" where
  "first_char_int s =
     (case take 1 s of
        [c] \<Rightarrow> if is_digit c then Inr (digit_val c) else Inl ValueError
      | _ \<Rightarrow> Inl ValueError)"

fun astype_int :: "string list \<Rightarrow> exn + int list" where
  "astype_int [] = Inr []"
| "astype_int (s # ss) =
     (case first_char_int s of
        Inl e \<Rightarrow> Inl e
      | Inr d \<Rightarrow> (case astype_int ss of Inl e \<Rightarrow> Inl e | Inr ds \<Rightarrow> Inr (d # ds)))"

text \<open>Boolean-mask selection \<open>df[mask]\<close>.\<close>

definition mask_select :: "'a list \<Rightarrow> bool list \<Rightarrow> 'a list" where
  "mask_select rows flags = map fst (filter snd (zip rows flags))"

definition ug_classes :: "web_row list \<Rightarrow> exn + web_row list" where
  "ug_classes instructor_classes =
     (case astype_int (map Course_Number instructor_classes) of
        Inl e \<Rightarrow> Inl e
      | Inr ds \<Rightarrow> Inr (mask_select instructor_classes (map (\<lambda>d. d \<le> 6) ds)))"

definition grad_classes :: "web_row list \<Rightarrow> exn + web_row list" where
  "grad_classes instructor_classes =
     (case astype_int (map Course_Number instructor_classes) of
        Inl e \<Rightarrow> Inl e
      | Inr ds \<Rightarrow> Inr (mask_select instructor_classes (map (\<lambda>d. d \<ge> 7) ds)))"

text \<open>\<open>classes[classes['Component'].str.contains('IND|THE|SUP', case=False, na=False)]\<close>\<close>

definition supervision_classes :: "web_row list \<Rightarrow> web_row list" where
  "supervision_classes classes =
     filter (\<lambda>r. search_keywords_ci [''IND'', ''THE'', ''SUP''] (Component r)) classes"

text \<open>The dictionary appended to \<open>workload_data\<close> for one instructor.\<close>

definition instructor_workload :: "web_row list \<Rightarrow> string \<Rightarrow> exn + (string \<times> cell) list" where
  "instructor_workload df instr =
     (let instructor_classes = filter (\<lambda>r. Instructor r = instr) df;
          (last_name, first_name) = web_split_name instr
      in case ug_classes instructor_classes of
           Inl e \<Rightarrow> Inl e
         | Inr ug_cl \<Rightarrow>
            (case grad_classes instructor_classes of
               Inl e \<Rightarrow> Inl e
             | Inr grad_cl \<Rightarrow>
                (let ug_supervision = supervision_classes ug_cl;
                     grad_supervision = supervision_classes grad_cl
                 in Inr
                   [(''Last Name'', Str last_name),
                    (''First Name'', Str first_name),
                    (''Total # of UG classes'', Num (int (length ug_cl))),
                    (''Total # of UG students from Column D'',
                       Num (sum_list (map Enrollment ug_cl))),
                    (''Total # of UG supervion classes'', Num (int (length ug_supervision))),
                    (''Total # of UG students from Column F'',
                       Num (sum_list (map Enrollment ug_supervision))),
                    (''Total # of Grad classes'', Num (int (length grad_cl))),
                    (''Total # of Grad students from Colum H'',
                       Num (sum_list (map Enrollment grad_cl))),
                    (''Total # of Grad supervion classes'',
                       Num (int (length grad_supervision))),
                    (''Total # of Grad student from Column J'',
                       Num (sum_list (map Enrollment grad_supervision)))])))"

text \<open>
  The loop over \<open>df['Instructor'].unique()\<close>; an exception raised for one instructor
  leaves the loop.
\<close>

fun workload_loop :: "web_row list \<Rightarrow> string list \<Rightarrow> exn + (string \<times> cell) list list" where
  "workload_loop df [] = Inr []"
| "workload_loop df (instr # rest) =
     (if instr = ''TBA'' then workload_loop df rest
      else (case instructor_workload df instr of
              Inl e \<Rightarrow> Inl e
            | Inr w \<Rightarrow>
               (case workload_loop df rest of
                  Inl e \<Rightarrow> Inl e
                | Inr ws \<Rightarrow> Inr (w # ws))))"

definition workload_data :: "web_row list \<Rightarrow> exn + (string \<times> cell) list list" where
  "workload_data df = workload_loop df (unique (map Instructor df))"

text \<open>\<open>pd.DataFrame(workload_data)\<close>: the columns are the keys of the dictionaries.\<close>

definition frame_of_dicts :: "(string \<times> cell) list list \<Rightarrow> dataframe" where
  "frame_of_dicts ds =
     \<lparr>columns = (case ds of [] \<Rightarrow> [] | d # _ \<Rightarrow> map fst d), records = ds\<rparr>"

text \<open>
  The summary of \<open>scrape_sf_state_schedule\<close>: \<open>None\<close> when the handler
  \<open>except Exception\<close> of the function catches an exception and the run is given up.
\<close>

definition workload_df :: "web_row list \<Rightarrow> dataframe option" where
  "workload_df df =
     (case workload_data df of Inl e \<Rightarrow> None | Inr ds \<Rightarrow> Some (frame_of_dicts ds))"

section \<open>Enrollment from the detail pages\<close>

text \<open>
  What the browser does on one visit of a class detail page in the web-UI variant:
  whether \<open>driver.get\<close> and the wait for the page raise, what \<open>find_element\<close> and the
  element's \<open>text\<close> give for a selector (an exception or the text), and the texts of
  the \<open>div\<close>s of class \<open>col-xs-5 col-md-6\<close> in the page source (or the exception raised
  on the way to them).
\<close>

record detail_page =
  get_result :: "exn option"
  wait_result :: "exn option"
  find_element_text :: "string \<Rightarrow> exn + string"
  enrollment_divs :: "exn + string list"

definition enrollment_selectors :: "string list" where
  "enrollment_selectors =
     [''#content > div > div.detail-container.row.class-details > div.col-md-4 > div > div:nth-child(6) > div.col-xs-5.col-md-6'',
      ''div.col-xs-5.col-md-6'',
      ''span[id*='' @ [CHR 0x27] @ ''ENRL_TOT'' @ [CHR 0x27] @ '']'']"

text \<open>
  The loop over the selectors: \<open>NoSuchElementException\<close> goes on to the next selector,
  any other exception leaves the loop, a text of digits is the result.
\<close>

fun try_selectors :: "(string \<Rightarrow> exn + string) \<Rightarrow> string list \<Rightarrow> exn + int option" where
  "try_selectors f [] = Inr None"
| "try_selectors f (selector # rest) =
     (case f selector of
        Inl e \<Rightarrow> if e = NoSuchElementException then try_selectors f rest else Inl e
      | Inr text \<Rightarrow>
          if py_isdigit (py_strip text) then Inr (Some (int_of_digits (py_strip text)))
          else try_selectors f rest)"

text \<open>The body of the \<open>try\<close> block of \<open>extract_enrollment_from_detail_page\<close>.\<close>

definition extract_enrollment_body :: "detail_page \<Rightarrow> exn + int" where
  "extract_enrollment_body page =
     (case get_result page of
        Some e \<Rightarrow> Inl e
      | None \<Rightarrow>
         (case wait_result page of
            Some e \<Rightarrow> Inl e
          | None \<Rightarrow>
             (case try_selectors (find_element_text page) enrollment_selectors of
                Inl e \<Rightarrow> Inl e
              | Inr (Some n) \<Rightarrow> Inr n
              | Inr None \<Rightarrow>
                 (case enrollment_divs page of
                    Inl e \<Rightarrow> Inl e
                  | Inr divs \<Rightarrow>
                     (case find (\<lambda>text. py_isdigit text \<and> 0 \<le> int_of_digits text
                                          \<and> int_of_digits text \<le> 500)
                                (map py_strip divs) of
                        Some text \<Rightarrow> Inr (int_of_digits text)
                      | None \<Rightarrow> Inr 0)))))"

text \<open>The function with its handler \<open>except Exception: ... return 0\<close>.\<close>

definition extract_enrollment_from_detail_page :: "detail_page \<Rightarrow> exn + int" where
  "extract_enrollment_from_detail_page page =
     (case extract_enrollment_body page of Inl e \<Rightarrow> Inr 0 | Inr n \<Rightarrow> Inr n)"

text \<open>
  The enrollment loop of \<open>scrape_sf_state_schedule\<close>; \<open>driver i\<close> is what the browser
  does on the \<open>i\<close>-th visit. An exception of the loop body would leave the loop.
\<close>

fun web_fill_enrollment :: "(nat \<Rightarrow> detail_page) \<Rightarrow> nat \<Rightarrow> web_row list \<Rightarrow> exn + web_row list" where
  "web_fill_enrollment driver i [] = Inr []"
| "web_fill_enrollment driver i (class_data # rest) =
     (case extract_enrollment_from_detail_page (driver i) of
        Inl e \<Rightarrow> Inl e
      | Inr enrollment \<Rightarrow>
         (case web_fill_enrollment driver (Suc i) rest of
            Inl e \<Rightarrow> Inl e
          | Inr rs \<Rightarrow> Inr (class_data\<lparr>Enrollment := enrollment\<rparr> # rs)))"

text \<open>
  One visit of a course page in the desktop variant: whether \<open>driver.get\<close> raises; for
  the \<open>i\<close>-th selector, whether the wait raises or finds an element, whose \<open>text\<close> raises
  or is a string; and the course code that the two patterns find in the page source
  (empty if none), or the exception raised on the way to it.
\<close>

record course_page =
  nav_result :: "exn option"
  located :: "nat \<Rightarrow> exn + (exn + string)"
  page_code :: "exn + string"

text \<open>The selector loop of \<open>get_course_enrollment\<close>: every exception goes on to the next.\<close>

fun first_located :: "(nat \<Rightarrow> exn + 'a) \<Rightarrow> nat list \<Rightarrow> 'a option" where
  "first_located f [] = None"
| "first_located f (i # rest) =
     (case f i of Inl e \<Rightarrow> first_located f rest | Inr el \<Rightarrow> Some el)"

text \<open>\<open>re.findall(r'\d+', text)\<close>: the maximal runs of digits.\<close>

definition findall_digits :: "string \<Rightarrow> string list" where
  "findall_digits text = split_by (\<lambda>c. \<not> is_digit c) [] text"

definition get_course_enrollment :: "course_page \<Rightarrow> string option \<Rightarrow> exn + int \<times> string" where
  "get_course_enrollment page link =
     (if link = None \<or> link = Some [] then Inr (0, '''')
      else
        (case nav_result page of
           Some e \<Rightarrow> Inr (0, '''')
         | None \<Rightarrow>
            (let enrolled =
                   (case first_located (located page) [0, 1, 2, 3, 4] of
                      None \<Rightarrow> 0
                    | Some (Inl e) \<Rightarrow> 0
                    | Some (Inr text) \<Rightarrow>
                       (case findall_digits (py_strip text) of
                          [] \<Rightarrow> 0
                        | n # _ \<Rightarrow> int_of_digits n));
                 actual_course_code = (case page_code page of Inl e \<Rightarrow> '''' | Inr c \<Rightarrow> c)
             in Inr (enrolled, actual_course_code))))"

text \<open>The body of the enrollment loop of \<open>main\<close>, with its handler, for one row.\<close>

definition update_row :: "course_page \<Rightarrow> raw_row \<Rightarrow> exn + raw_row" where
  "update_row page row =
     (if course_link row = None \<or> course_link row = Some [] then Inr row
      else
        (case get_course_enrollment page (course_link row) of
           Inl e \<Rightarrow> Inr row
         | Inr (n, actual_course_code) \<Rightarrow>
            Inr (row\<lparr>enrolled := n,
                      course_code := (if actual_course_code \<noteq> [] then actual_course_code
                                      else course_code row)\<rparr>)))"

fun fill_enrollment :: "(nat \<Rightarrow> course_page) \<Rightarrow> nat \<Rightarrow> raw_row list \<Rightarrow> exn + raw_row list" where
  "fill_enrollment driver i [] = Inr []"
| "fill_enrollment driver i (row # rest) =
     (case update_row (driver i) row of
        Inl e \<Rightarrow> Inl e
      | Inr row' \<Rightarrow>
         (case fill_enrollment driver (Suc i) rest of
            Inl e \<Rightarrow> Inl e
          | Inr rs \<Rightarrow> Inr (row' # rs)))"

section \<open>The specification's notions\<close>

text \<open>
  The first standalone 3-digit numeric token of a string, in the words of the
  specification: the string is cut into its maximal runs of word characters, and the
  first run that consists of exactly three digits is taken.
\<close>

definition is_3digit :: "string \<Rightarrow> bool" where
  "is_3digit t \<longleftrightarrow> length t = 3 \<and> list_all is_digit t"

definition word_tokens :: "string \<Rightarrow> string list" where
  "word_tokens s = split_by (\<lambda>c. \<not> is_word c) [] s"

definition first_standalone_3digit :: "string \<Rightarrow> string option" where
  "first_standalone_3digit s = find is_3digit (word_tokens s)"

text \<open>The leading digit of a course number, if it starts with a digit.\<close>

definition leading_digit :: "string \<Rightarrow> int option" where
  "leading_digit s = (case s of [] \<Rightarrow> None | c # _ \<Rightarrow> if is_digit c then Some (digit_val c) else None)"





text \<open>The two metric columns of a bucket, under their output labels.\<close>

definition metric_columns :: "string \<Rightarrow> string list" where
  "metric_columns b =
     [rename_label column_mapping (b @ ''_class_count''),
      rename_label column_mapping (b @ ''_student_count'')]"

text \<open>
  The summary row that the desktop variant is expected to give for a key: the name,
  the two metrics of every bucket that occurs in the frame, and the note.
\<close>

definition bucket_rows :: "named_row list \<Rightarrow> string \<times> string \<Rightarrow> string \<Rightarrow> named_row list" where
  "bucket_rows df k b = filter (\<lambda>r. bucket r = b) (group_rows df k)"

definition metric_part :: "named_row list \<Rightarrow> string \<times> string \<Rightarrow> string \<Rightarrow> (string \<times> cell) list" where
  "metric_part df k b =
     (if b \<in> set (map bucket df)
      then zip (metric_columns b)
               [Num (int (length (bucket_rows df k b))),
                Num (sum_list (map enrolled (bucket_rows df k b)))]
      else [])"

definition summary_row :: "named_row list \<Rightarrow> string \<times> string \<Rightarrow> (string \<times> cell) list" where
  "summary_row df k =
     [(''Last Name'', Str (fst k)), (''First Name'', Str (snd k))]
     @ metric_part df k ''ug_lecture'' @ metric_part df k ''ug_superv''
     @ metric_part df k ''grad_lecture'' @ metric_part df k ''grad_superv''
     @ [(''note'', Str (collect_notes (map note_field (group_rows df k))))]"

text \<open>The course numbers of the rows can all be converted.\<close>

definition numbers_ok :: "web_row list \<Rightarrow> bool" where
  "numbers_ok ic \<longleftrightarrow> list_all (\<lambda>x. leading_digit (Course_Number x) \<noteq> None) ic"

definition ug_number :: "web_row \<Rightarrow> bool" where
  "ug_number x = (case leading_digit (Course_Number x) of Some d \<Rightarrow> d \<le> 6 | None \<Rightarrow> False)"

definition grad_number :: "web_row \<Rightarrow> bool" where
  "grad_number x = (case leading_digit (Course_Number x) of Some d \<Rightarrow> d \<ge> 7 | None \<Rightarrow> False)"

text \<open>
  The summary row that the web-UI variant is expected to give for an instructor whose
  course numbers can all be converted.
\<close>

definition workload_row :: "web_row list \<Rightarrow> string \<Rightarrow> (string \<times> cell) list" where
  "workload_row df i =
     (let ic = filter (\<lambda>r. Instructor r = i) df in
      [(''Last Name'', Str (fst (web_split_name i))),
       (''First Name'', Str (snd (web_split_name i))),
       (''Total # of UG classes'', Num (int (length (filter ug_number ic)))),
       (''Total # of UG students from Column D'',
          Num (sum_list (map Enrollment (filter ug_number ic)))),
       (''Total # of UG supervion classes'',
          Num (int (length (supervision_classes (filter ug_number ic))))),
       (''Total # of UG students from Column F'',
          Num (sum_list (map Enrollment (supervision_classes (filter ug_number ic))))),
       (''Total # of Grad classes'', Num (int (length (filter grad_number ic)))),
       (''Total # of Grad students from Colum H'',
          Num (sum_list (map Enrollment (filter grad_number ic)))),
       (''Total # of Grad supervion classes'',
          Num (int (length (supervision_classes (filter grad_number ic))))),
       (''Total # of Grad student from Column J'',
          Num (sum_list (map Enrollment (supervision_classes (filter grad_number ic)))))])"

text \<open>
  The failures of an extraction that are not exceptions. Web-UI variant: every selector
  finds no element or a text that is not a number, and no \<open>div\<close> of the page source has a
  number as text. Desktop variant: every selector times out, or gives an element whose
  text cannot be read or has no digit.
\<close>

definition web_nothing_parsable :: "detail_page \<Rightarrow> bool" where
  "web_nothing_parsable page \<longleftrightarrow>
     list_all (\<lambda>selector. case find_element_text page selector of
                             Inl e \<Rightarrow> e = NoSuchElementException
                           | Inr text \<Rightarrow> \<not> py_isdigit (py_strip text)) enrollment_selectors
     \<and> (case enrollment_divs page of
          Inl e \<Rightarrow> True
        | Inr divs \<Rightarrow> list_all (\<lambda>text. \<not> py_isdigit (py_strip text)) divs)"

definition desktop_nothing_found :: "course_page \<Rightarrow> bool" where
  "desktop_nothing_found page \<longleftrightarrow>
     list_all (\<lambda>i. case located page i of
                     Inl e \<Rightarrow> True
                   | Inr (Inl e) \<Rightarrow> True
                   | Inr (Inr text) \<Rightarrow> \<not> list_ex is_digit text) [0, 1, 2, 3, 4]"

section \<open>Example inputs\<close>

definition example_rows :: "raw_row list" where
  "example_rows =
     [\<lparr>course_type = ''Lecture Cross-Listed'', title = ''Financial Management'', units = ''3'',
       course_code = ''FIN 350'', instructor = ''Lee, Amy'', enrolled = 30,
       note_field = ''cross-listed'', course_link = None, class_number = ''1001''\<rparr>,
      \<lparr>course_type = ''Supervision'', title = ''Master Thesis'', units = ''3'',
       course_code = ''FIN 799'', instructor = ''Lee, Amy'', enrolled = 5,
       note_field = '''', course_link = None, class_number = ''1002''\<rparr>,
      \<lparr>course_type = ''Seminar Paired'', title = ''Seminar in Finance'', units = ''3'',
       course_code = ''FIN 801'', instructor = ''Lee, Amy'', enrolled = 12,
       note_field = ''paired'', course_link = None, class_number = ''1003''\<rparr>,
      \<lparr>course_type = ''Lecture Cross-Listed'', title = ''Investments'', units = ''3'',
       course_code = ''FIN 355'', instructor = ''Abe, Bob'', enrolled = 40,
       note_field = ''cross-listed'', course_link = None, class_number = ''1004''\<rparr>]"

definition example_df :: "named_row list" where
  "example_df = process_instructor_names (classify_courses example_rows)"

definition example_web_rows :: "web_row list" where
  "example_web_rows =
     [\<lparr>Class_Nbr = ''1001'', Section = ''01'', Component = ''LEC'', Course_Number = ''350'',
       Instructor = ''Lee, Amy'', Course_Title = ''FIN 350'', Enrollment = 30\<rparr>,
      \<lparr>Class_Nbr = ''1002'', Section = ''01'', Component = ''IND'', Course_Number = ''699'',
       Instructor = ''Lee, Amy'', Course_Title = ''FIN 699'', Enrollment = 5\<rparr>,
      \<lparr>Class_Nbr = ''1003'', Section = ''01'', Component = ''SEM'', Course_Number = ''801'',
       Instructor = ''Lee, Amy'', Course_Title = ''FIN 801'', Enrollment = 12\<rparr>,
      \<lparr>Class_Nbr = ''1004'', Section = ''01'', Component = ''LEC'', Course_Number = ''355'',
       Instructor = ''TBA'', Course_Title = ''FIN 355'', Enrollment = 40\<rparr>]"

definition example_summary_table :: dataframe where
  "example_summary_table =
     \<lparr>columns =
        [''Last Name'', ''First Name'', ''Total # of UG classes'',
         ''Total # of UG students from Column D'', ''Total # of Grad classes'',
         ''Total # of Grad students from Colum H'', ''Total # of Grad supervion classes'',
         ''Total # of Grad student from Column J'', ''note''],
      records =
        [[(''Last Name'', Str ''Abe''), (''First Name'', Str ''Bob''),
          (''Total # of UG classes'', Num 1),
          (''Total # of UG students from Column D'', Num 40),
          (''Total # of Grad classes'', Num 0),
          (''Total # of Grad students from Colum H'', Num 0),
          (''Total # of Grad supervion classes'', Num 0),
          (''Total # of Grad student from Column J'', Num 0),
          (''note'', Str ''cross-listed'')],
         [(''Last Name'', Str ''Lee''), (''First Name'', Str ''Amy''),
          (''Total # of UG classes'', Num 1),
          (''Total # of UG students from Column D'', Num 30),
          (''Total # of Grad classes'', Num 1),
          (''Total # of Grad students from Colum H'', Num 12),
          (''Total # of Grad supervion classes'', Num 1),
          (''Total # of Grad student from Column J'', Num 5),
          (''note'', Str ''cross-listed; paired'')]]\<rparr>"

definition example_workload :: "(string \<times> cell) list list" where
  "example_workload =
     [[(''Last Name'', Str ''Lee''), (''First Name'', Str ''Amy''),
       (''Total # of UG classes'', Num 2),
       (''Total # of UG students from Column D'', Num 35),
       (''Total # of UG supervion classes'', Num 1),
       (''Total # of UG students from Column F'', Num 5),
       (''Total # of Grad classes'', Num 1),
       (''Total # of Grad students from Colum H'', Num 12),
       (''Total # of Grad supervion classes'', Num 0),
       (''Total # of Grad student from Column J'', Num 0)]]"

text \<open>Pages for the examples: one that times out and one that shows an enrollment.\<close>

definition timeout_page :: detail_page where
  "timeout_page =
     \<lparr>get_result = None, wait_result = Some TimeoutException,
      find_element_text = (\<lambda>selector. Inl NoSuchElementException),
      enrollment_divs = Inr []\<rparr>"

definition enrolled_page :: detail_page where
  "enrolled_page =
     \<lparr>get_result = None, wait_result = None,
      find_element_text =
        (\<lambda>selector. if selector = ''div.col-xs-5.col-md-6'' then Inr '' 25 ''
                     else Inl NoSuchElementException),
      enrollment_divs = Inr ['' 25 '']\<rparr>"

definition timeout_course_page :: course_page where
  "timeout_course_page =
     \<lparr>nav_result = None, located = (\<lambda>i. Inl TimeoutException), page_code = Inr ''''\<rparr>"

definition enrolled_course_page :: course_page where
  "enrolled_course_page =
     \<lparr>nav_result = None,
      located = (\<lambda>i. if i = 2 then Inr (Inr ''Enrolled: 25 of 30'') else Inl TimeoutException),
      page_code = Inr ''FIN 350''\<rparr>"

section \<open>Properties\<close>

subsection \<open>The course-number search\<close>

lemma is_digit_is_word: "is_digit c \<Longrightarrow> is_word c"
  by (auto simp: is_digit_def is_word_def)

lemma split_by_run:
  "split_by sep cur s =
     (if cur @ takeWhile (\<lambda>c. \<not> sep c) s = [] then split_by sep [] (dropWhile (\<lambda>c. \<not> sep c) s)
      else (cur @ takeWhile (\<lambda>c. \<not> sep c) s) # split_by sep [] (dropWhile (\<lambda>c. \<not> sep c) s))"
  by (induction s arbitrary: cur) auto

lemma word_tokens_word:
  "is_word c \<Longrightarrow>
   word_tokens (c # cs) = (c # takeWhile is_word cs) # word_tokens (dropWhile is_word cs)"
  unfolding word_tokens_def by (subst split_by_run) simp

lemma word_tokens_nonword: "\<not> is_word c \<Longrightarrow> word_tokens (c # cs) = word_tokens cs"
  by (simp add: word_tokens_def)

lemma match_here_inside: "is_word p \<Longrightarrow> match_here (Some p) s = None"
  by (auto simp: match_here_def word_boundary_def is_word_opt_def is_digit_is_word
           split: list.splits)

lemma match_here_nonword: "\<not> is_word c \<Longrightarrow> match_here prev (c # cs) = None"
  by (auto simp: match_here_def is_digit_is_word split: list.splits)

lemma match_here_token:
  assumes "\<not> is_word_opt prev" "is_word c"
  shows "match_here prev (c # cs) =
           (if is_3digit (c # takeWhile is_word cs) then Some (c # takeWhile is_word cs)
            else None)"
proof (cases cs)
  case Nil
  then show ?thesis by (simp add: match_here_def is_3digit_def)
next
  case (Cons d2 cs2)
  show ?thesis
  proof (cases cs2)
    case Nil
    with Cons show ?thesis by (simp add: match_here_def is_3digit_def)
  next
    case (Cons d3 rest)
    with \<open>cs = d2 # cs2\<close> assms show ?thesis
      by (cases rest)
         (auto simp: match_here_def is_3digit_def word_boundary_def is_word_opt_def
                     is_digit_is_word)
  qed
qed

text \<open>
  The search at a position inside a word finds what the tokens after that word give;
  the search at a position after a non-word character finds what the tokens from there
  give.
\<close>

lemma re_search_from_tokens:
  "(is_word p \<longrightarrow>
      re_search_from (Some p) s = find is_3digit (word_tokens (dropWhile is_word s)))
   \<and> (\<not> is_word_opt prev \<longrightarrow> re_search_from prev s = find is_3digit (word_tokens s))"
proof (induction s arbitrary: p prev)
  case Nil
  show ?case by (simp add: word_tokens_def)
next
  case (Cons c cs)
  show ?case
  proof (cases "is_word c")
    case True
    have A: "is_word p \<longrightarrow> re_search_from (Some p) (c # cs)
               = find is_3digit (word_tokens (dropWhile is_word (c # cs)))"
      using True Cons.IH [of c None] by (simp add: match_here_inside)
    have B: "\<not> is_word_opt prev \<longrightarrow> re_search_from prev (c # cs)
               = find is_3digit (word_tokens (c # cs))"
      using True Cons.IH [of c None]
      by (simp add: match_here_token word_tokens_word)
    from A B show ?thesis by blast
  next
    case False
    have nw: "\<not> is_word_opt (Some c)" using False by (simp add: is_word_opt_def)
    have "re_search_from prev' (c # cs) = find is_3digit (word_tokens (c # cs))" for prev'
      using False nw Cons.IH [of c "Some c"]
      by (simp add: match_here_nonword word_tokens_nonword)
    then show ?thesis using False by simp
  qed
qed

lemma re_search_3digit_refines: "re_search_3digit s = first_standalone_3digit s"
  using re_search_from_tokens [where s = s and prev = None, THEN conjunct2]
  by (simp add: re_search_3digit_def first_standalone_3digit_def is_word_opt_def)

subsection \<open>The leading digit of the web-UI variant\<close>

lemma first_char_int_leading:
  "first_char_int s = (case leading_digit s of Some d \<Rightarrow> Inr d | None \<Rightarrow> Inl ValueError)"
  by (cases s) (simp_all add: first_char_int_def leading_digit_def)

lemma astype_int_ok:
  "\<forall>s\<in>set ss. leading_digit s \<noteq> None \<Longrightarrow>
   astype_int ss = Inr (map (\<lambda>s. case leading_digit s of Some d \<Rightarrow> d | None \<Rightarrow> 0) ss)"
  by (induction ss) (auto simp: first_char_int_leading)

lemma astype_int_fails:
  "\<exists>s\<in>set ss. leading_digit s = None \<Longrightarrow> astype_int ss = Inl ValueError"
proof (induction ss)
  case Nil
  then show ?case by simp
next
  case (Cons a ss)
  show ?case
  proof (cases "leading_digit a")
    case None
    then show ?thesis by (simp add: first_char_int_leading)
  next
    case (Some d)
    with Cons.prems have "\<exists>s\<in>set ss. leading_digit s = None" by auto
    with Cons.IH Some show ?thesis by (simp add: first_char_int_leading)
  qed
qed

lemma mask_select_map: "mask_select xs (map p xs) = filter p xs"
  unfolding mask_select_def by (induction xs) auto

lemma grad_classes_ok:
  assumes "\<forall>x\<in>set ic. leading_digit (Course_Number x) \<noteq> None"
  shows "grad_classes ic =
           Inr (filter (\<lambda>x. case leading_digit (Course_Number x) of
                               Some d \<Rightarrow> d \<ge> 7 | None \<Rightarrow> False) ic)"
proof -
  have "astype_int (map Course_Number ic) =
          Inr (map (\<lambda>s. case leading_digit s of Some d \<Rightarrow> d | None \<Rightarrow> 0) (map Course_Number ic))"
    using assms by (intro astype_int_ok) simp
  moreover have "mask_select ic (map (\<lambda>x. (case leading_digit (Course_Number x) of
                      Some d \<Rightarrow> d | None \<Rightarrow> 0) \<ge> 7) ic)
                 = filter (\<lambda>x. case leading_digit (Course_Number x) of
                               Some d \<Rightarrow> d \<ge> 7 | None \<Rightarrow> False) ic"
    unfolding mask_select_map using assms
    by (intro filter_cong) (auto split: option.splits)
  ultimately show ?thesis by (simp add: grad_classes_def comp_def)
qed

lemma ug_classes_ok:
  assumes "\<forall>x\<in>set ic. leading_digit (Course_Number x) \<noteq> None"
  shows "ug_classes ic =
           Inr (filter (\<lambda>x. case leading_digit (Course_Number x) of
                               Some d \<Rightarrow> d \<le> 6 | None \<Rightarrow> False) ic)"
proof -
  have "astype_int (map Course_Number ic) =
          Inr (map (\<lambda>s. case leading_digit s of Some d \<Rightarrow> d | None \<Rightarrow> 0) (map Course_Number ic))"
    using assms by (intro astype_int_ok) simp
  moreover have "mask_select ic (map (\<lambda>x. (case leading_digit (Course_Number x) of
                      Some d \<Rightarrow> d | None \<Rightarrow> 0) \<le> 6) ic)
                 = filter (\<lambda>x. case leading_digit (Course_Number x) of
                               Some d \<Rightarrow> d \<le> 6 | None \<Rightarrow> False) ic"
    unfolding mask_select_map using assms
    by (intro filter_cong) (auto split: option.splits)
  ultimately show ?thesis by (simp add: ug_classes_def comp_def)
qed

text \<open>
  C1. The classifier sets \<open>level = grad\<close> exactly when the course number meets the
  threshold of the variant. Desktop variant: exactly when the first standalone
  3-digit numeric token of \<open>course_code\<close> is at least 700, and \<open>ug\<close> when there is no such
  token; \<open>699\<close> gives \<open>ug\<close> and \<open>700\<close> gives \<open>grad\<close>. Web-UI variant: for rows whose
  course numbers start with a digit, the graduate classes are exactly the rows whose
  leading digit is at least 7 and the undergraduate classes exactly those whose
  leading digit is at most 6; \<open>6\<close> gives undergraduate and \<open>7\<close> graduate.
\<close>

theorem level_grad_iff_threshold:
  "(level (classify_row r) = grad \<longleftrightarrow>
      (case first_standalone_3digit (course_code r) of
         Some t \<Rightarrow> int_of_digits t \<ge> 700 | None \<Rightarrow> False))
   \<and> (level (classify_row r) = ug \<longleftrightarrow>
      (case first_standalone_3digit (course_code r) of
         Some t \<Rightarrow> int_of_digits t < 700 | None \<Rightarrow> True))
   \<and> level (classify_row (r\<lparr>course_code := ''FIN 699''\<rparr>)) = ug
   \<and> level (classify_row (r\<lparr>course_code := ''FIN 700''\<rparr>)) = grad
   \<and> ((\<forall>x\<in>set ic. leading_digit (Course_Number x) \<noteq> None) \<longrightarrow>
        grad_classes ic =
          Inr (filter (\<lambda>x. case leading_digit (Course_Number x) of
                              Some d \<Rightarrow> d \<ge> 7 | None \<Rightarrow> False) ic)
        \<and> ug_classes ic =
          Inr (filter (\<lambda>x. case leading_digit (Course_Number x) of
                              Some d \<Rightarrow> d \<le> 6 | None \<Rightarrow> False) ic))
   \<and> grad_classes [w\<lparr>Course_Number := ''699''\<rparr>, w\<lparr>Course_Number := ''700''\<rparr>]
        = Inr [w\<lparr>Course_Number := ''700''\<rparr>]
   \<and> ug_classes [w\<lparr>Course_Number := ''699''\<rparr>, w\<lparr>Course_Number := ''700''\<rparr>]
        = Inr [w\<lparr>Course_Number := ''699''\<rparr>]"
proof -
  have desktop: "is_grad r' \<longleftrightarrow>
      (case first_standalone_3digit (course_code r') of
         Some t \<Rightarrow> int_of_digits t \<ge> 700 | None \<Rightarrow> False)" for r'
    by (simp add: is_grad_def re_search_3digit_refines)
  have 1: "level (classify_row r) = grad \<longleftrightarrow>
      (case first_standalone_3digit (course_code r) of
         Some t \<Rightarrow> int_of_digits t \<ge> 700 | None \<Rightarrow> False)"
    using desktop [of r] by (simp add: classify_row_def)
  have 2: "level (classify_row r) = ug \<longleftrightarrow>
      (case first_standalone_3digit (course_code r) of
         Some t \<Rightarrow> int_of_digits t < 700 | None \<Rightarrow> True)"
    using desktop [of r] by (auto simp: classify_row_def split: option.splits)
  have 3: "level (classify_row (r\<lparr>course_code := ''FIN 699''\<rparr>)) = ug"
    by (simp add: classify_row_def is_grad_def re_search_3digit_def match_here_def
          word_boundary_def is_word_opt_def is_word_def is_digit_def int_of_digits_def
          digit_val_def)
  have 4: "level (classify_row (r\<lparr>course_code := ''FIN 700''\<rparr>)) = grad"
    by (simp add: classify_row_def is_grad_def re_search_3digit_def match_here_def
          word_boundary_def is_word_opt_def is_word_def is_digit_def int_of_digits_def
          digit_val_def)
  have 5: "grad_classes [w\<lparr>Course_Number := ''699''\<rparr>, w\<lparr>Course_Number := ''700''\<rparr>]
        = Inr [w\<lparr>Course_Number := ''700''\<rparr>]"
    by (simp add: grad_classes_def first_char_int_def is_digit_def digit_val_def
          mask_select_def)
  have 6: "ug_classes [w\<lparr>Course_Number := ''699''\<rparr>, w\<lparr>Course_Number := ''700''\<rparr>]
        = Inr [w\<lparr>Course_Number := ''699''\<rparr>]"
    by (simp add: ug_classes_def first_char_int_def is_digit_def digit_val_def
          mask_select_def)
  from 1 2 3 4 5 6 grad_classes_ok [of ic] ug_classes_ok [of ic] show ?thesis
    by blast
qed

theorem level_grad_iff_threshold_witness:
  "level (classify_row \<lparr>course_type = ''Lecture'', title = ''Seminar'', units = ''3'',
            course_code = ''ACCT 801'', instructor = ''Lee, Amy'', enrolled = 12,
            note_field = '''', course_link = None, class_number = ''1234''\<rparr>) = grad
   \<and> leading_digit ''350'' \<noteq> None \<and> leading_digit ''801'' \<noteq> None
   \<and> grad_classes [\<lparr>Class_Nbr = ''1'', Section = ''01'', Component = ''LEC'',
                   Course_Number = ''350'', Instructor = ''Lee,Amy'', Course_Title = ''FIN 350'',
                   Enrollment = 30\<rparr>,
                 \<lparr>Class_Nbr = ''2'', Section = ''01'', Component = ''SEM'',
                   Course_Number = ''801'', Instructor = ''Lee,Amy'', Course_Title = ''FIN 801'',
                   Enrollment = 9\<rparr>]
       = Inr [\<lparr>Class_Nbr = ''2'', Section = ''01'', Component = ''SEM'',
                   Course_Number = ''801'', Instructor = ''Lee,Amy'', Course_Title = ''FIN 801'',
                   Enrollment = 9\<rparr>]"
  using level_grad_iff_threshold
    [of "\<lparr>course_type = ''Lecture'', title = ''Seminar'', units = ''3'',
            course_code = ''ACCT 801'', instructor = ''Lee, Amy'', enrolled = 12,
            note_field = '''', course_link = None, class_number = ''1234''\<rparr>"
        "[\<lparr>Class_Nbr = ''1'', Section = ''01'', Component = ''LEC'',
                   Course_Number = ''350'', Instructor = ''Lee,Amy'', Course_Title = ''FIN 350'',
                   Enrollment = 30\<rparr>,
                 \<lparr>Class_Nbr = ''2'', Section = ''01'', Component = ''SEM'',
                   Course_Number = ''801'', Instructor = ''Lee,Amy'', Course_Title = ''FIN 801'',
                   Enrollment = 9\<rparr>]"]
  by (simp add: first_standalone_3digit_def word_tokens_def is_word_def is_3digit_def
        is_digit_def int_of_digits_def digit_val_def leading_digit_def)

subsection \<open>Strings\<close>

lemma py_replace_comma: "py_replace '','' '''' s = filter (\<lambda>c. c \<noteq> CHR '','') s"
proof (induction s)
  case Nil
  show ?case by (subst py_replace.simps) simp
next
  case (Cons c cs)
  show ?case by (subst py_replace.simps) (use Cons in auto)
qed

lemma py_split_comma1_first:
  "CHR '','' \<notin> set a \<Longrightarrow> py_split_comma1 (a @ CHR '','' # b) = [a, b]"
  by (induction a) (auto simp: py_split_comma1_def)

lemma py_split_comma1_none: "CHR '','' \<notin> set s \<Longrightarrow> py_split_comma1 s = [s]"
  by (simp add: py_split_comma1_def)

lemma split_by_trailing:
  "list_all sep ws \<Longrightarrow> split_by sep cur (s @ ws) = split_by sep cur s"
proof (induction s arbitrary: cur)
  case Nil
  then show ?case by (induction ws arbitrary: cur) auto
next
  case (Cons c s)
  then show ?case by simp
qed

lemma split_by_leading: "split_by sep [] (dropWhile sep s) = split_by sep [] s"
  by (induction s) auto

lemma py_split_strip: "py_split (py_strip s) = py_split s"
proof -
  let ?t = "dropWhile is_space s"
  have "?t = rev (dropWhile is_space (rev ?t)) @ rev (takeWhile is_space (rev ?t))"
    by (metis rev_append rev_rev_ident takeWhile_dropWhile_id)
  moreover have "list_all is_space (rev (takeWhile is_space (rev ?t)))"
    by (simp add: list_all_iff) (meson set_takeWhileD)
  ultimately have
    "split_by is_space [] (rev (dropWhile is_space (rev ?t))) = split_by is_space [] ?t"
    by (metis split_by_trailing)
  then show ?thesis by (simp add: py_split_def py_strip_def split_by_leading)
qed

lemma py_in_prefix: "py_in old (old @ s)"
proof (cases "old @ s")
  case Nil
  then show ?thesis by simp
next
  case (Cons a l)
  have "take (length old) (old @ s) = old" by simp
  with Cons show ?thesis by simp
qed

lemma py_replace_absent: "old \<noteq> [] \<Longrightarrow> \<not> py_in old s \<Longrightarrow> py_replace old new s = s"
proof (induction s)
  case Nil
  then show ?case by (subst py_replace.simps) simp
next
  case (Cons c cs)
  then show ?case by (subst py_replace.simps) auto
qed

lemma py_replace_prefix:
  "old \<noteq> [] \<Longrightarrow> py_replace old new (old @ s) = new @ py_replace old new s"
  by (subst py_replace.simps) simp

subsection \<open>Name normalisation\<close>

text \<open>
  C3, as the code has it. \<open>split_name\<close> (desktop variant) returns \<open>("", "")\<close> on empty
  or missing input; on input with a comma it splits at the first comma and trims both
  parts, giving (last, first); on comma-free input the whole trimmed input is the last
  name and the first name is empty, however many tokens there are, so that
  \<open>split_name("Jane Smith") = ("Jane Smith", "")\<close>. The rule "first token is the last
  name, the remaining tokens joined are the first name" is that of the web-UI
  variant's inline split, which removes the commas and splits on white space: with two
  or more tokens the first one is the last name and the others, joined by a blank,
  the first name, so that \<open>"Jane Smith"\<close> gives \<open>("Jane", "Smith")\<close>; with fewer
  tokens the instructor string itself is the last name and the first name is empty.
\<close>

theorem split_name_cases:
  "split_name None = ('''', '''')
   \<and> split_name (Some '''') = ('''', '''')
   \<and> (CHR '','' \<notin> set a \<longrightarrow> split_name (Some (a @ '','' @ b)) = (py_strip a, py_strip b))
   \<and> split_name (Some ''Smith, Jane'') = (''Smith'', ''Jane'')
   \<and> (s \<noteq> [] \<and> CHR '','' \<notin> set s \<longrightarrow> split_name (Some s) = (py_strip s, ''''))
   \<and> split_name (Some ''Jane Smith'') = (''Jane Smith'', '''')
   \<and> (py_split (filter (\<lambda>c. c \<noteq> CHR '','') t) = p0 # p1 # ps \<longrightarrow>
        web_split_name t = (p0, py_join '' '' (p1 # ps)))
   \<and> (length (py_split (filter (\<lambda>c. c \<noteq> CHR '','') t)) < 2 \<longrightarrow> web_split_name t = (t, ''''))
   \<and> web_split_name ''Jane Smith'' = (''Jane'', ''Smith'')
   \<and> web_split_name ''Smith, Jane'' = (''Smith'', ''Jane'')"
proof -
  have 1: "CHR '','' \<notin> set a \<longrightarrow> split_name (Some (a @ '','' @ b)) = (py_strip a, py_strip b)"
    by (simp add: split_name_def py_split_comma1_first)
  have 2: "s \<noteq> [] \<and> CHR '','' \<notin> set s \<longrightarrow> split_name (Some s) = (py_strip s, '''')"
    by (simp add: split_name_def py_split_comma1_none)
  have 3: "split_name (Some ''Smith, Jane'') = (''Smith'', ''Jane'')"
    by (simp add: split_name_def py_split_comma1_def py_strip_def is_space_def)
  have 4: "split_name (Some ''Jane Smith'') = (''Jane Smith'', '''')"
    by (simp add: split_name_def py_split_comma1_def py_strip_def is_space_def)
  have 5: "py_split (filter (\<lambda>c. c \<noteq> CHR '','') t) = p0 # p1 # ps \<longrightarrow>
        web_split_name t = (p0, py_join '' '' (p1 # ps))"
    by (simp add: web_split_name_def py_replace_comma)
  have 6: "length (py_split (filter (\<lambda>c. c \<noteq> CHR '','') t)) < 2 \<longrightarrow>
        web_split_name t = (t, '''')"
    by (auto simp: web_split_name_def py_replace_comma split: list.splits)
  have 7: "web_split_name ''Jane Smith'' = (''Jane'', ''Smith'')"
    by (simp add: web_split_name_def py_replace_comma py_split_def is_space_def)
  have 8: "web_split_name ''Smith, Jane'' = (''Smith'', ''Jane'')"
    by (simp add: web_split_name_def py_replace_comma py_split_def is_space_def)
  from 1 2 3 4 5 6 7 8 show ?thesis by (simp add: split_name_def)
qed

theorem split_name_cases_witness:
  "CHR '','' \<notin> set ''Van Dyke''
   \<and> split_name (Some ''Van Dyke, Mary Ann'') = (''Van Dyke'', ''Mary Ann'')
   \<and> split_name (Some '' Cher '') = (''Cher'', '''')
   \<and> web_split_name ''Van Dyke, Mary Ann'' = (''Van'', ''Dyke Mary Ann'')
   \<and> web_split_name ''Smith,Jane'' = (''Smith,Jane'', '''')"
  using
    split_name_cases [of "''Van Dyke''" "'' Mary Ann''" "'' Cher ''" "''Van Dyke, Mary Ann''"
        "''Van''" "''Dyke''" "[''Mary'', ''Ann'']"]
    split_name_cases [of "''Van Dyke''" "'' Mary Ann''" "'' Cher ''" "''Smith,Jane''"
        "''Van''" "''Dyke''" "[''Mary'', ''Ann'']"]
  by (simp add: py_strip_def py_split_def is_space_def)

text \<open>
  The claim as stated fails on the desktop \<open>split_name\<close>: a comma-free input of two
  tokens is not split.
\<close>

theorem split_name_no_comma_counterexample:
  "split_name (Some ''Jane Smith'') \<noteq> (''Jane'', ''Smith'')"
  by (simp add: split_name_def py_split_comma1_def py_strip_def is_space_def)

subsection \<open>The instructor cell of the desktop variant\<close>

lemma parse_instructor_tokens:
  assumes "py_in ''Instructors:'' col"
  shows "parse_instructor col =
           (case py_split (py_replace ''Instructors:'' '''' col) of
              p0 # p1 # _ \<Rightarrow> p1 @ '', '' @ p0 | [p0] \<Rightarrow> p0 | [] \<Rightarrow> '''')"
  using assms by (auto simp: parse_instructor_def py_split_strip split: list.splits)

text \<open>
  C10. When \<open>parse_rows\<close> reformats an \<open>Instructors:\<close> cell, only the first two white-space
  tokens of the name are used: with two or more tokens \<open>t0 t1 ...\<close> the stored string is
  \<open>"t1, t0"\<close>, whatever follows the second token, and a single token is stored as it is,
  with no comma added.
\<close>

theorem parse_instructor_first_two_tokens:
  "(py_in ''Instructors:'' col \<and>
      py_split (py_replace ''Instructors:'' '''' col) = t0 # t1 # rest \<longrightarrow>
        parse_instructor col = t1 @ '', '' @ t0)
   \<and> (py_in ''Instructors:'' col \<and> py_split (py_replace ''Instructors:'' '''' col) = [t0] \<longrightarrow>
        parse_instructor col = t0)
   \<and> (\<not> py_in ''Instructors:'' text \<and> py_split text = t0 # t1 # rest \<longrightarrow>
        parse_instructor (''Instructors:'' @ text) = t1 @ '', '' @ t0)
   \<and> (\<not> py_in ''Instructors:'' text \<and> py_split text = [t0] \<longrightarrow>
        parse_instructor (''Instructors:'' @ text) = t0)
   \<and> parse_instructor ''Instructors: Mary Ann Van Dyke'' = ''Ann, Mary''
   \<and> parse_instructor ''Instructors: Cher'' = ''Cher''"
proof -
  have pre: "py_in ''Instructors:'' (''Instructors:'' @ text)"
    by (rule py_in_prefix)
  have rep: "\<not> py_in ''Instructors:'' text \<Longrightarrow>
       py_replace ''Instructors:'' '''' (''Instructors:'' @ text) = text"
    by (simp add: py_replace_prefix py_replace_absent del: append.simps)
  have 1: "py_in ''Instructors:'' col \<and>
      py_split (py_replace ''Instructors:'' '''' col) = t0 # t1 # rest \<longrightarrow>
        parse_instructor col = t1 @ '', '' @ t0"
    by (simp add: parse_instructor_tokens)
  have 2: "py_in ''Instructors:'' col \<and>
      py_split (py_replace ''Instructors:'' '''' col) = [t0] \<longrightarrow> parse_instructor col = t0"
    by (simp add: parse_instructor_tokens)
  have 3: "\<not> py_in ''Instructors:'' text \<and> py_split text = t0 # t1 # rest \<longrightarrow>
        parse_instructor (''Instructors:'' @ text) = t1 @ '', '' @ t0"
    using parse_instructor_tokens [OF pre] rep by (simp del: append.simps)
  have 4: "\<not> py_in ''Instructors:'' text \<and> py_split text = [t0] \<longrightarrow>
        parse_instructor (''Instructors:'' @ text) = t0"
    using parse_instructor_tokens [OF pre] rep by (simp del: append.simps)
  have 5: "parse_instructor ''Instructors: Mary Ann Van Dyke'' = ''Ann, Mary''"
    by (simp add: parse_instructor_def py_split_def py_replace.simps is_space_def py_strip_def)
  have 6: "parse_instructor ''Instructors: Cher'' = ''Cher''"
    by (simp add: parse_instructor_def py_split_def py_replace.simps is_space_def py_strip_def)
  from 1 2 3 4 5 6 show ?thesis by blast
qed

theorem parse_instructor_first_two_tokens_witness:
  "\<not> py_in ''Instructors:'' '' Maria de la Cruz''
   \<and> py_split '' Maria de la Cruz'' = [''Maria'', ''de'', ''la'', ''Cruz'']
   \<and> parse_instructor ''Instructors: Maria de la Cruz'' = ''de, Maria''
   \<and> py_in ''Instructors:'' ''Room 2 Instructors: Prince''
   \<and> parse_instructor ''Room 2 Instructors: Prince'' = ''2, Room''"
  using
    parse_instructor_first_two_tokens
      [of "''Room 2 Instructors: Prince''" "''Room''" "''2''" "[''Prince'']"
          "'' Maria de la Cruz''"]
    parse_instructor_first_two_tokens
      [of "''Room 2 Instructors: Prince''" "''Maria''" "''de''" "[''la'', ''Cruz'']"
          "'' Maria de la Cruz''"]
  by (simp add: py_split_def is_space_def py_replace.simps)

subsection \<open>Malformed course numbers\<close>

text \<open>
  C8. A course number that does not start with a digit: the desktop classifier gives
  \<open>ug\<close>, but in the web-UI variant the conversion of the first character raises
  \<open>ValueError\<close>, no summary row is produced for any instructor and the run is given up.
  Here the second result row has the course number \<open>X50\<close>.
\<close>

theorem web_malformed_course_number_gives_up:
  "web_parse_table
     [[''Class''],
      [''FIN 350'', ''1234'', ''01'', ''LEC'', '''', '''', '''', ''Lee,Amy''],
      [''FIN X50'', ''1235'', ''01'', ''LEC'', '''', '''', '''', ''Lee,Amy'']]
   = [\<lparr>Class_Nbr = ''1234'', Section = ''01'', Component = ''LEC'', Course_Number = ''350'',
        Instructor = ''Lee,Amy'', Course_Title = ''FIN 350'', Enrollment = 0\<rparr>,
      \<lparr>Class_Nbr = ''1235'', Section = ''01'', Component = ''LEC'', Course_Number = ''X50'',
        Instructor = ''Lee,Amy'', Course_Title = ''FIN X50'', Enrollment = 0\<rparr>]
   \<and> workload_data
       [\<lparr>Class_Nbr = ''1234'', Section = ''01'', Component = ''LEC'', Course_Number = ''350'',
          Instructor = ''Lee,Amy'', Course_Title = ''FIN 350'', Enrollment = 0\<rparr>,
        \<lparr>Class_Nbr = ''1235'', Section = ''01'', Component = ''LEC'', Course_Number = ''X50'',
          Instructor = ''Lee,Amy'', Course_Title = ''FIN X50'', Enrollment = 0\<rparr>]
     = Inl ValueError
   \<and> workload_df
       [\<lparr>Class_Nbr = ''1234'', Section = ''01'', Component = ''LEC'', Course_Number = ''350'',
          Instructor = ''Lee,Amy'', Course_Title = ''FIN 350'', Enrollment = 0\<rparr>,
        \<lparr>Class_Nbr = ''1235'', Section = ''01'', Component = ''LEC'', Course_Number = ''X50'',
          Instructor = ''Lee,Amy'', Course_Title = ''FIN X50'', Enrollment = 0\<rparr>]
     = None
   \<and> level (classify_row (r\<lparr>course_code := ''FIN X50''\<rparr>)) = ug"
proof -
  have 1: "web_parse_table
     [[''Class''],
      [''FIN 350'', ''1234'', ''01'', ''LEC'', '''', '''', '''', ''Lee,Amy''],
      [''FIN X50'', ''1235'', ''01'', ''LEC'', '''', '''', '''', ''Lee,Amy'']]
   = [\<lparr>Class_Nbr = ''1234'', Section = ''01'', Component = ''LEC'', Course_Number = ''350'',
        Instructor = ''Lee,Amy'', Course_Title = ''FIN 350'', Enrollment = 0\<rparr>,
      \<lparr>Class_Nbr = ''1235'', Section = ''01'', Component = ''LEC'', Course_Number = ''X50'',
        Instructor = ''Lee,Amy'', Course_Title = ''FIN X50'', Enrollment = 0\<rparr>]"
    by (simp add: web_parse_table_def List.map_filter_def web_parse_row_def py_strip_def
          is_space_def py_lower_def lower_char_def py_isdigit_def is_digit_def py_split_def
          web_instructor_def)
  have 2: "workload_data
       [\<lparr>Class_Nbr = ''1234'', Section = ''01'', Component = ''LEC'', Course_Number = ''350'',
          Instructor = ''Lee,Amy'', Course_Title = ''FIN 350'', Enrollment = 0\<rparr>,
        \<lparr>Class_Nbr = ''1235'', Section = ''01'', Component = ''LEC'', Course_Number = ''X50'',
          Instructor = ''Lee,Amy'', Course_Title = ''FIN X50'', Enrollment = 0\<rparr>]
     = Inl ValueError"
    by (simp add: workload_data_def instructor_workload_def ug_classes_def
          first_char_int_def is_digit_def digit_val_def split_beta)
  have 3: "level (classify_row (r\<lparr>course_code := ''FIN X50''\<rparr>)) = ug"
    by (simp add: classify_row_def is_grad_def re_search_3digit_def match_here_def
          word_boundary_def is_word_opt_def is_word_def is_digit_def)
  from 1 2 3 show ?thesis by (simp add: workload_df_def)
qed

subsection \<open>The summary table of the desktop variant, row by row\<close>

lemma bucket_cases:
  "bucket r \<in> set [''grad_lecture'', ''grad_superv'', ''ug_lecture'', ''ug_superv'']"
  by (simp add: bucket_def)

lemma sorted_bucket_names:
  "sorted [''grad_lecture'', ''grad_superv'', ''ug_lecture'', ''ug_superv'']"
  by simp

lemma present_buckets:
  "sort (remdups (map bucket df)) =
     filter (\<lambda>b. b \<in> set (map bucket df))
       [''grad_lecture'', ''grad_superv'', ''ug_lecture'', ''ug_superv'']"
proof -
  define bs where "bs = [''grad_lecture'', ''grad_superv'', ''ug_lecture'', ''ug_superv'']"
  have sub: "set (map bucket df) \<subseteq> set bs"
    using bucket_cases unfolding bs_def by (intro subsetI) (auto simp del: set_simps)
  have "sorted bs" "distinct bs"
    unfolding bs_def by simp_all
  then have "sorted (filter (\<lambda>b. b \<in> set (map bucket df)) bs)"
    "distinct (filter (\<lambda>b. b \<in> set (map bucket df)) bs)"
    by (simp_all add: sorted_wrt_filter)
  moreover have "set (sort (remdups (map bucket df)))
                 = set (filter (\<lambda>b. b \<in> set (map bucket df)) bs)"
    using sub by (simp only: set_sort set_remdups set_filter) blast
  ultimately have "sort (remdups (map bucket df)) = filter (\<lambda>b. b \<in> set (map bucket df)) bs"
    by (intro sorted_distinct_set_unique) simp_all
  then show ?thesis by (simp only: bs_def)
qed

lemma pivot_cell_class:
  "pivot_cell df k (''class_count'', b) = int (length (bucket_rows df k b))"
  by (simp add: pivot_cell_def bucket_rows_def helper_column_def [abs_def] Let_def sum_list_triv)

lemma pivot_cell_student:
  "pivot_cell df k (''student_count'', b) = sum_list (map enrolled (bucket_rows df k b))"
  by (simp add: pivot_cell_def bucket_rows_def helper_column_def [abs_def] Let_def)

lemma notes_table_lookup:
  "k \<in> set (group_keys df) \<Longrightarrow>
   map_of (notes_table df) k = Some (collect_notes (map note_field (group_rows df k)))"
  unfolding notes_table_def by (induction "group_keys df") (auto simp: map_of_map_restrict)


lemma summary_record:
  assumes "k \<in> set (group_keys df)"
  shows "select_columns
           (filter (\<lambda>col. col \<in> set (columns (rename_columns column_mapping (pivot_table df))
                                        @ [''note''])) column_order)
           (fillna (Num 0) (merge_notes (notes_table df)
              (map (\<lambda>cx. (rename_label column_mapping (fst cx), snd cx))
                 ([(''Last Name'', Str (fst k)), (''First Name'', Str (snd k))]
                  @ map (\<lambda>vb. (flat_name vb, Num (pivot_cell df k vb))) (pivot_columns df)))))
         = summary_row df k"
  unfolding pivot_columns_def present_buckets
  by (cases "''ug_lecture'' \<in> set (map bucket df)";
      cases "''ug_superv'' \<in> set (map bucket df)";
      cases "''grad_lecture'' \<in> set (map bucket df)";
      cases "''grad_superv'' \<in> set (map bucket df)")
     (simp_all add: select_columns_def fillna_def merge_notes_def record_key_def
        notes_table_lookup [OF assms] rename_columns_def pivot_table_def pivot_columns_def
        present_buckets flat_name_def rename_label_def column_mapping_def column_order_def
        summary_row_def metric_part_def metric_columns_def pivot_cell_class pivot_cell_student)

lemma summary_columns:
  "filter (\<lambda>col. col \<in> set (columns (rename_columns column_mapping (pivot_table df))
                               @ [''note''])) column_order
   = [''Last Name'', ''First Name'']
     @ (if ''ug_lecture'' \<in> set (map bucket df) then metric_columns ''ug_lecture'' else [])
     @ (if ''ug_superv'' \<in> set (map bucket df) then metric_columns ''ug_superv'' else [])
     @ (if ''grad_lecture'' \<in> set (map bucket df) then metric_columns ''grad_lecture'' else [])
     @ (if ''grad_superv'' \<in> set (map bucket df) then metric_columns ''grad_superv'' else [])
     @ [''note'']"
  unfolding pivot_columns_def present_buckets
  by (cases "''ug_lecture'' \<in> set (map bucket df)";
      cases "''ug_superv'' \<in> set (map bucket df)";
      cases "''grad_lecture'' \<in> set (map bucket df)";
      cases "''grad_superv'' \<in> set (map bucket df)")
     (simp_all add: rename_columns_def pivot_table_def pivot_columns_def
        present_buckets flat_name_def rename_label_def column_mapping_def column_order_def
        metric_columns_def)

lemma summary_row_columns:
  "map fst (summary_row df k)
   = [''Last Name'', ''First Name'']
     @ (if ''ug_lecture'' \<in> set (map bucket df) then metric_columns ''ug_lecture'' else [])
     @ (if ''ug_superv'' \<in> set (map bucket df) then metric_columns ''ug_superv'' else [])
     @ (if ''grad_lecture'' \<in> set (map bucket df) then metric_columns ''grad_lecture'' else [])
     @ (if ''grad_superv'' \<in> set (map bucket df) then metric_columns ''grad_superv'' else [])
     @ [''note'']"
  by (simp add: summary_row_def metric_part_def metric_columns_def)

text \<open>The table is, row by row, the expected one.\<close>

lemma create_summary_table_rows:
  "records (create_summary_table df) = map (summary_row df) (group_keys df)"
proof -
  have "records (create_summary_table df)
        = map (\<lambda>k. select_columns
           (filter (\<lambda>col. col \<in> set (columns (rename_columns column_mapping (pivot_table df))
                                        @ [''note''])) column_order)
           (fillna (Num 0) (merge_notes (notes_table df)
              (map (\<lambda>cx. (rename_label column_mapping (fst cx), snd cx))
                 ([(''Last Name'', Str (fst k)), (''First Name'', Str (snd k))]
                  @ map (\<lambda>vb. (flat_name vb, Num (pivot_cell df k vb))) (pivot_columns df))))))
           (group_keys df)"
    by (simp only: create_summary_table_def Let_def pivot_table_def rename_columns_def
          dataframe.select_convs map_map comp_def)
  also have "\<dots> = map (summary_row df) (group_keys df)"
    by (intro map_cong refl summary_record)
  finally show ?thesis .
qed

lemma create_summary_table_columns:
  "columns (create_summary_table df) = map fst (summary_row df k)"
  unfolding summary_row_columns summary_columns [symmetric]
  by (simp only: create_summary_table_def Let_def dataframe.select_convs)

lemma metric_columns_simps:
  "metric_columns ''ug_lecture''
     = [''Total # of UG classes'', ''Total # of UG students from Column D'']"
  "metric_columns ''ug_superv''
     = [''Total # of UG supervion classes'', ''Total # of UG students from Column F'']"
  "metric_columns ''grad_lecture''
     = [''Total # of Grad classes'', ''Total # of Grad students from Colum H'']"
  "metric_columns ''grad_superv''
     = [''Total # of Grad supervion classes'', ''Total # of Grad student from Column J'']"
  by (simp_all add: metric_columns_def rename_label_def column_mapping_def)

lemma map_of_summary_row:
  "map_of (summary_row df k) c =
     (if c = ''Last Name'' then Some (Str (fst k))
      else if c = ''First Name'' then Some (Str (snd k))
      else if c = ''Total # of UG classes'' \<and> ''ug_lecture'' \<in> set (map bucket df)
        then Some (Num (int (length (bucket_rows df k ''ug_lecture''))))
      else if c = ''Total # of UG students from Column D'' \<and> ''ug_lecture'' \<in> set (map bucket df)
        then Some (Num (sum_list (map enrolled (bucket_rows df k ''ug_lecture''))))
      else if c = ''Total # of UG supervion classes'' \<and> ''ug_superv'' \<in> set (map bucket df)
        then Some (Num (int (length (bucket_rows df k ''ug_superv''))))
      else if c = ''Total # of UG students from Column F'' \<and> ''ug_superv'' \<in> set (map bucket df)
        then Some (Num (sum_list (map enrolled (bucket_rows df k ''ug_superv''))))
      else if c = ''Total # of Grad classes'' \<and> ''grad_lecture'' \<in> set (map bucket df)
        then Some (Num (int (length (bucket_rows df k ''grad_lecture''))))
      else if c = ''Total # of Grad students from Colum H'' \<and> ''grad_lecture'' \<in> set (map bucket df)
        then Some (Num (sum_list (map enrolled (bucket_rows df k ''grad_lecture''))))
      else if c = ''Total # of Grad supervion classes'' \<and> ''grad_superv'' \<in> set (map bucket df)
        then Some (Num (int (length (bucket_rows df k ''grad_superv''))))
      else if c = ''Total # of Grad student from Column J'' \<and> ''grad_superv'' \<in> set (map bucket df)
        then Some (Num (sum_list (map enrolled (bucket_rows df k ''grad_superv''))))
      else if c = ''note'' then Some (Str (collect_notes (map note_field (group_rows df k))))
      else None)"
  unfolding summary_row_def metric_part_def metric_columns_simps
  by (cases "''ug_lecture'' \<in> set (map bucket df)";
      cases "''ug_superv'' \<in> set (map bucket df)";
      cases "''grad_lecture'' \<in> set (map bucket df)";
      cases "''grad_superv'' \<in> set (map bucket df)")
     (simp_all del: set_map)

lemma summary_row_key: "record_key (summary_row df k) = Some k"
  by (simp add: record_key_def map_of_summary_row)

lemma summary_row_note:
  "map_of (summary_row df k) ''note'' = Some (Str (collect_notes (map note_field (group_rows df k))))"
  by (simp add: map_of_summary_row)






subsection \<open>The workload summary of the web-UI variant\<close>

lemma numbers_ok_iff: "numbers_ok ic \<longleftrightarrow> (\<forall>x\<in>set ic. leading_digit (Course_Number x) \<noteq> None)"
  by (simp add: numbers_ok_def list_all_iff)

lemma ug_classes_eq:
  "ug_classes ic = (if numbers_ok ic then Inr (filter ug_number ic) else Inl ValueError)"
proof (cases "numbers_ok ic")
  case True
  then show ?thesis
    using ug_classes_ok [of ic] by (simp add: numbers_ok_iff ug_number_def [abs_def])
next
  case False
  then have "\<exists>s\<in>set (map Course_Number ic). leading_digit s = None"
    by (auto simp: numbers_ok_iff)
  then show ?thesis using False by (simp add: ug_classes_def astype_int_fails)
qed

lemma grad_classes_eq:
  "grad_classes ic = (if numbers_ok ic then Inr (filter grad_number ic) else Inl ValueError)"
proof (cases "numbers_ok ic")
  case True
  then show ?thesis
    using grad_classes_ok [of ic] by (simp add: numbers_ok_iff grad_number_def [abs_def])
next
  case False
  then have "\<exists>s\<in>set (map Course_Number ic). leading_digit s = None"
    by (auto simp: numbers_ok_iff)
  then show ?thesis using False by (simp add: grad_classes_def astype_int_fails)
qed

lemma instructor_workload_eq:
  "instructor_workload df i =
     (let ic = filter (\<lambda>r. Instructor r = i) df in
      if numbers_ok ic then
        Inr [(''Last Name'', Str (fst (web_split_name i))),
             (''First Name'', Str (snd (web_split_name i))),
             (''Total # of UG classes'', Num (int (length (filter ug_number ic)))),
             (''Total # of UG students from Column D'',
                Num (sum_list (map Enrollment (filter ug_number ic)))),
             (''Total # of UG supervion classes'',
                Num (int (length (supervision_classes (filter ug_number ic))))),
             (''Total # of UG students from Column F'',
                Num (sum_list (map Enrollment (supervision_classes (filter ug_number ic))))),
             (''Total # of Grad classes'', Num (int (length (filter grad_number ic)))),
             (''Total # of Grad students from Colum H'',
                Num (sum_list (map Enrollment (filter grad_number ic)))),
             (''Total # of Grad supervion classes'',
                Num (int (length (supervision_classes (filter grad_number ic))))),
             (''Total # of Grad student from Column J'',
                Num (sum_list (map Enrollment (supervision_classes (filter grad_number ic)))))]
      else Inl ValueError)"
  by (simp add: instructor_workload_def ug_classes_eq grad_classes_eq Let_def split_beta)





subsection \<open>The examples, evaluated\<close>

lemma example_summary:
  "create_summary_table example_df = example_summary_table"
  by code_simp

lemma example_workload:
  "workload_data example_web_rows = Inr example_workload"
  by code_simp

lemma example_group_keys: "group_keys example_df = [(''Abe'', ''Bob''), (''Lee'', ''Amy'')]"
  by code_simp

lemma example_group_rows:
  "map enrolled (group_rows example_df (''Lee'', ''Amy'')) = [30, 5, 12]"
  by code_simp

lemma example_notes:
  "map note_field (group_rows example_df (''Lee'', ''Amy'')) = [''cross-listed'', '''', ''paired'']"
  by code_simp


subsection \<open>Sums over the buckets\<close>

lemma set_unique: "set (unique xs) = set xs"
  by (induction xs rule: unique.induct) auto







subsection \<open>Notes\<close>

lemma collect_notes_spec:
  "\<exists>l. collect_notes ns = py_join ''; '' l \<and> sorted l \<and> distinct l
       \<and> set l = {n \<in> set ns. n \<noteq> []}"
  unfolding collect_notes_def
  by (intro exI [of _ "sort (remdups (filter (\<lambda>n. n \<noteq> []) ns))"]) auto

lemma collect_notes_empty: "\<forall>n\<in>set ns. n = [] \<Longrightarrow> collect_notes ns = ''''"
proof -
  assume "\<forall>n\<in>set ns. n = []"
  then have "filter (\<lambda>n. n \<noteq> []) ns = []" by (simp add: filter_empty_conv)
  then show ?thesis by (simp add: collect_notes_def)
qed

lemma set_group_keys: "set (group_keys df) = group_key ` set df"
  by (simp add: group_keys_def)

text \<open>
  C7. The note of every row of the summary is the join with \<open>"; "\<close> of a list that is
  sorted, has no duplicates and consists of exactly the non-empty notes of the rows of
  that instructor; every instructor of the input has such a row; the notes
  \<open>["cross-listed", "", "paired", "cross-listed"]\<close> give \<open>"cross-listed; paired"\<close>; and an
  instructor without non-empty notes has the empty string as note.
\<close>

theorem note_of_group:
  "(\<forall>rec\<in>set (records (create_summary_table df)). \<exists>k\<in>set (group_keys df).
       record_key rec = Some k
       \<and> (\<exists>l. map_of rec ''note'' = Some (Str (py_join ''; '' l)) \<and> sorted l \<and> distinct l
              \<and> set l = {n \<in> set (map note_field (group_rows df k)). n \<noteq> []})
       \<and> ((\<forall>r\<in>set (group_rows df k). note_field r = []) \<longrightarrow>
             map_of rec ''note'' = Some (Str '''')))
   \<and> (\<forall>r\<in>set df. \<exists>rec\<in>set (records (create_summary_table df)).
         record_key rec = Some (group_key r))
   \<and> collect_notes [''cross-listed'', '''', ''paired'', ''cross-listed'']
       = ''cross-listed; paired''"
proof (intro conjI ballI)
  fix rec assume "rec \<in> set (records (create_summary_table df))"
  then obtain k where k: "k \<in> set (group_keys df)" and rec: "rec = summary_row df k"
    by (auto simp: create_summary_table_rows)
  from collect_notes_spec [of "map note_field (group_rows df k)"]
  have "\<exists>l. map_of rec ''note'' = Some (Str (py_join ''; '' l)) \<and> sorted l \<and> distinct l
              \<and> set l = {n \<in> set (map note_field (group_rows df k)). n \<noteq> []}"
    unfolding rec summary_row_note by auto
  moreover have "(\<forall>r\<in>set (group_rows df k). note_field r = []) \<longrightarrow>
             map_of rec ''note'' = Some (Str '''')"
    unfolding rec summary_row_note by (simp add: collect_notes_empty)
  ultimately show "\<exists>k\<in>set (group_keys df).
       record_key rec = Some k
       \<and> (\<exists>l. map_of rec ''note'' = Some (Str (py_join ''; '' l)) \<and> sorted l \<and> distinct l
              \<and> set l = {n \<in> set (map note_field (group_rows df k)). n \<noteq> []})
       \<and> ((\<forall>r\<in>set (group_rows df k). note_field r = []) \<longrightarrow>
             map_of rec ''note'' = Some (Str ''''))"
    using k unfolding rec by (intro bexI [of _ k]) (simp_all add: summary_row_key)
next
  fix r assume "r \<in> set df"
  then have "group_key r \<in> set (group_keys df)" by (simp add: set_group_keys)
  then have "summary_row df (group_key r) \<in> set (records (create_summary_table df))"
    by (simp add: create_summary_table_rows)
  then show "\<exists>rec\<in>set (records (create_summary_table df)). record_key rec = Some (group_key r)"
    by (intro bexI [of _ "summary_row df (group_key r)"]) (simp_all add: summary_row_key)
next
  show "collect_notes [''cross-listed'', '''', ''paired'', ''cross-listed'']
       = ''cross-listed; paired''"
    by (simp add: collect_notes_def)
qed

theorem note_of_group_witness:
  "records (create_summary_table example_df) = records example_summary_table
   \<and> record_key (records example_summary_table ! 1) = Some (''Lee'', ''Amy'')
   \<and> map note_field (group_rows example_df (''Lee'', ''Amy''))
       = [''cross-listed'', '''', ''paired'']
   \<and> map_of (records example_summary_table ! 1) ''note'' = Some (Str ''cross-listed; paired'')"
  using note_of_group [of example_df] example_summary example_notes
  by (simp add: example_summary_table_def record_key_def)

subsection \<open>The columns of the summary\<close>









subsection \<open>The order of the rows\<close>

lemma length_mset_cong: "mset xs = mset ys \<Longrightarrow> length (filter P xs) = length (filter P ys)"
  by (metis mset_filter size_mset)

lemma sum_list_mset_cong:
  fixes f :: "'a \<Rightarrow> int"
  assumes "mset xs = mset ys"
  shows "sum_list (map f (filter P xs)) = sum_list (map f (filter P ys))"
proof -
  have "sum_list (map f (filter P zs)) = sum_mset (image_mset f (filter_mset P (mset zs)))" for zs
    by (metis mset_filter mset_map sum_mset_sum_list)
  with assms show ?thesis by simp
qed

lemma sort_remdups_cong: "set xs = set ys \<Longrightarrow> sort (remdups xs) = sort (remdups ys)"
  by (simp add: sorted_list_of_set_sort_remdups [symmetric])

lemma bucket_rows_filter:
  "bucket_rows df k b = filter (\<lambda>r. group_key r = k \<and> bucket r = b) df"
  by (simp add: bucket_rows_def group_rows_def conj_commute)

lemma summary_row_cong:
  assumes "mset xs = mset ys"
  shows "summary_row xs k = summary_row ys k"
proof -
  from assms have s: "set xs = set ys" by (rule mset_eq_setD)
  then have b: "set (map bucket xs) = set (map bucket ys)" by simp
  have n: "collect_notes (map note_field (group_rows xs k))
           = collect_notes (map note_field (group_rows ys k))"
    unfolding collect_notes_def
    by (intro arg_cong [where f = "py_join ''; ''"] sort_remdups_cong)
       (simp add: group_rows_def s)
  have l: "length (bucket_rows xs k c) = length (bucket_rows ys k c)" for c
    unfolding bucket_rows_filter using assms by (rule length_mset_cong)
  have e: "sum_list (map enrolled (bucket_rows xs k c))
           = sum_list (map enrolled (bucket_rows ys k c))" for c
    unfolding bucket_rows_filter using assms by (rule sum_list_mset_cong)
  show ?thesis
    unfolding summary_row_def metric_part_def by (simp only: b n l e)
qed

lemma create_summary_table_cong:
  assumes "mset xs = mset ys"
  shows "create_summary_table xs = create_summary_table ys"
proof (rule dataframe.equality)
  from assms have s: "set xs = set ys" by (rule mset_eq_setD)
  have k: "group_keys xs = group_keys ys"
    unfolding group_keys_def by (rule sort_remdups_cong) (simp add: s)
  show "records (create_summary_table xs) = records (create_summary_table ys)"
    unfolding create_summary_table_rows k
    by (intro map_cong refl summary_row_cong assms)
  show "columns (create_summary_table xs) = columns (create_summary_table ys)"
    unfolding create_summary_table_columns [of _ "('''', '''')"]
    by (simp only: summary_row_cong [OF assms])
qed simp

lemma instructor_workload_row:
  "instructor_workload df i =
     (if numbers_ok (filter (\<lambda>r. Instructor r = i) df) then Inr (workload_row df i)
      else Inl ValueError)"
  by (simp add: instructor_workload_eq workload_row_def Let_def)

lemma supervision_classes_filter:
  "supervision_classes (filter P xs)
   = filter (\<lambda>r. P r \<and> search_keywords_ci [''IND'', ''THE'', ''SUP''] (Component r)) xs"
  unfolding supervision_classes_def by (induction xs) auto

lemma workload_row_cong:
  assumes "mset xs = mset ys"
  shows "workload_row xs i = workload_row ys i"
  unfolding workload_row_def Let_def filter_filter supervision_classes_filter
  by (simp only: length_mset_cong [OF assms] sum_list_mset_cong [OF assms])

lemma instructor_workload_cong:
  assumes "mset xs = mset ys"
  shows "instructor_workload xs i = instructor_workload ys i"
proof -
  from assms have "set xs = set ys" by (rule mset_eq_setD)
  then have "numbers_ok (filter (\<lambda>r. Instructor r = i) xs)
             = numbers_ok (filter (\<lambda>r. Instructor r = i) ys)"
    by (simp add: numbers_ok_iff)
  then show ?thesis
    by (simp only: instructor_workload_row workload_row_cong [OF assms])
qed

lemma distinct_unique: "distinct (unique xs)"
  by (induction xs rule: unique.induct) (auto simp: set_unique)

lemma workload_loop_eq:
  "workload_loop df is =
     (if \<forall>i\<in>set is. i \<noteq> ''TBA'' \<longrightarrow> numbers_ok (filter (\<lambda>r. Instructor r = i) df)
      then Inr (map (workload_row df) (filter (\<lambda>i. i \<noteq> ''TBA'') is))
      else Inl ValueError)"
  by (induction "is") (auto simp: instructor_workload_row)

lemma workload_data_cong:
  assumes "mset xs = mset ys"
  shows "map_sum id mset (workload_data xs) = map_sum id mset (workload_data ys)"
proof -
  let ?ux = "unique (map Instructor xs)" and ?uy = "unique (map Instructor ys)"
  let ?ok = "\<lambda>df is. \<forall>i\<in>set is. i \<noteq> ''TBA'' \<longrightarrow> numbers_ok (filter (\<lambda>r. Instructor r = i) df)"
  from assms have s: "set xs = set ys" by (rule mset_eq_setD)
  then have si: "set (map Instructor xs) = set (map Instructor ys)" by simp
  have "set ?ux = set ?uy" by (simp only: set_unique si)
  then have u: "mset ?ux = mset ?uy"
    using distinct_unique [of "map Instructor xs"] distinct_unique [of "map Instructor ys"]
    by (simp only: set_eq_iff_mset_eq_distinct)
  have ok: "?ok xs ?ux = ?ok ys ?uy"
    by (simp only: set_unique si) (simp add: numbers_ok_iff s)
  have wr: "workload_row xs = workload_row ys"
    by (rule ext) (rule workload_row_cong [OF assms])
  have eq: "mset (map (workload_row xs) (filter (\<lambda>i. i \<noteq> ''TBA'') ?ux))
        = mset (map (workload_row ys) (filter (\<lambda>i. i \<noteq> ''TBA'') ?uy))"
    by (simp only: mset_map mset_filter u wr)
  show ?thesis
  proof (cases "?ok ys ?uy")
    case True
    with ok have "?ok xs ?ux" by blast
    then have "workload_data xs = Inr (map (workload_row xs) (filter (\<lambda>i. i \<noteq> ''TBA'') ?ux))"
      unfolding workload_data_def workload_loop_eq by (rule if_P)
    moreover from True
    have "workload_data ys = Inr (map (workload_row ys) (filter (\<lambda>i. i \<noteq> ''TBA'') ?uy))"
      unfolding workload_data_def workload_loop_eq by (rule if_P)
    ultimately show ?thesis by (simp only: map_sum.simps eq)
  next
    case False
    with ok have "\<not> ?ok xs ?ux" by blast
    then have "workload_data xs = Inl ValueError"
      unfolding workload_data_def workload_loop_eq by (rule if_not_P)
    moreover from False have "workload_data ys = Inl ValueError"
      unfolding workload_data_def workload_loop_eq by (rule if_not_P)
    ultimately show ?thesis by (simp only:)
  qed
qed

text \<open>
  C6. Aggregation does not depend on the order of the input rows. Desktop variant:
  two sequences with the same rows give the same summary table. Web-UI variant: they
  give the same summary row for every instructor, and the same rows in the summary
  (listed in the order in which the instructors first appear).
\<close>

theorem aggregation_order_independent:
  "(mset xs = mset ys \<longrightarrow> create_summary_table xs = create_summary_table ys)
   \<and> (mset wx = mset wy \<longrightarrow>
        (\<forall>i. instructor_workload wx i = instructor_workload wy i)
        \<and> map_sum id mset (workload_data wx) = map_sum id mset (workload_data wy))"
  using create_summary_table_cong [of xs ys] instructor_workload_cong [of wx wy]
    workload_data_cong [of wx wy]
  by blast

theorem aggregation_order_independent_witness:
  "mset (rev example_df) = mset example_df
   \<and> create_summary_table (rev example_df) = example_summary_table
   \<and> mset (rev example_web_rows) = mset example_web_rows
   \<and> map_sum id mset (workload_data (rev example_web_rows)) = Inr (mset example_workload)"
proof -
  note th = aggregation_order_independent
      [of "rev example_df" example_df "rev example_web_rows" example_web_rows]
  have a: "mset (rev example_df) = mset example_df" by simp
  have b: "mset (rev example_web_rows) = mset example_web_rows" by simp
  from th a have "create_summary_table (rev example_df) = create_summary_table example_df"
    by blast
  then have c: "create_summary_table (rev example_df) = example_summary_table"
    by (simp only: example_summary)
  from th b have "map_sum id mset (workload_data (rev example_web_rows))
                  = map_sum id mset (workload_data example_web_rows)"
    by blast
  then have d: "map_sum id mset (workload_data (rev example_web_rows))
                = Inr (mset example_workload)"
    by (simp only: example_workload map_sum.simps)
  from a b c d show ?thesis by blast
qed

subsection \<open>Rows without an instructor\<close>

lemma find_SomeD: "find P xs = Some x \<Longrightarrow> P x"
  by (induction xs) (auto split: if_splits)















subsection \<open>Enrollment extraction\<close>

lemma extract_never_raises: "\<exists>n. extract_enrollment_from_detail_page page = Inr n"
  by (simp add: extract_enrollment_from_detail_page_def split: sum.splits)

lemma extract_exception_zero:
  "extract_enrollment_body page = Inl e \<Longrightarrow> extract_enrollment_from_detail_page page = Inr 0"
  by (simp add: extract_enrollment_from_detail_page_def)

lemma try_selectors_nothing:
  "list_all (\<lambda>selector. case f selector of
                          Inl e \<Rightarrow> e = NoSuchElementException
                        | Inr text \<Rightarrow> \<not> py_isdigit (py_strip text)) sels
   \<Longrightarrow> try_selectors f sels = Inr None"
  by (induction sels) (auto split: sum.splits)

lemma find_nothing: "list_all (\<lambda>x. \<not> P x) xs \<Longrightarrow> find P xs = None"
  by (induction xs) auto

lemma extract_failure_zero:
  assumes "get_result page \<noteq> None \<or> wait_result page \<noteq> None \<or> web_nothing_parsable page"
  shows "extract_enrollment_from_detail_page page = Inr 0"
proof (cases "get_result page \<noteq> None \<or> wait_result page \<noteq> None")
  case True
  then show ?thesis
    by (auto simp: extract_enrollment_from_detail_page_def extract_enrollment_body_def
             split: option.splits)
next
  case False
  with assms have np: "web_nothing_parsable page" by blast
  then have sel: "try_selectors (find_element_text page) enrollment_selectors = Inr None"
    unfolding web_nothing_parsable_def by (intro try_selectors_nothing) simp
  have divs: "find (\<lambda>text. py_isdigit text \<and> 0 \<le> int_of_digits text \<and> int_of_digits text \<le> 500)
                (map py_strip ds) = None" if "enrollment_divs page = Inr ds" for ds
  proof (rule find_nothing)
    from np that have "list_all (\<lambda>text. \<not> py_isdigit (py_strip text)) ds"
      by (simp add: web_nothing_parsable_def)
    then show "list_all (\<lambda>x. \<not> (py_isdigit x \<and> 0 \<le> int_of_digits x \<and> int_of_digits x \<le> 500))
                 (map py_strip ds)"
      by (simp add: list_all_iff)
  qed
  from False sel divs show ?thesis
    by (auto simp: extract_enrollment_from_detail_page_def extract_enrollment_body_def
             split: option.splits sum.splits)
qed

lemma web_fill_enrollment_total:
  "\<exists>rs. web_fill_enrollment driver i data = Inr rs \<and> length rs = length data
        \<and> (\<forall>j<length data. \<exists>n. extract_enrollment_from_detail_page (driver (i + j)) = Inr n
                               \<and> rs ! j = (data ! j)\<lparr>Enrollment := n\<rparr>)"
proof (induction data arbitrary: i)
  case Nil
  show ?case by simp
next
  case (Cons class_data rest)
  obtain n where n: "extract_enrollment_from_detail_page (driver i) = Inr n"
    using extract_never_raises by blast
  from Cons [of "Suc i"] obtain rs where
    rs: "web_fill_enrollment driver (Suc i) rest = Inr rs" "length rs = length rest"
      "\<forall>j<length rest. \<exists>n. extract_enrollment_from_detail_page (driver (Suc i + j)) = Inr n
                               \<and> rs ! j = (rest ! j)\<lparr>Enrollment := n\<rparr>"
    by blast
  have "\<exists>m. extract_enrollment_from_detail_page (driver (i + j)) = Inr m
            \<and> (class_data\<lparr>Enrollment := n\<rparr> # rs) ! j = ((class_data # rest) ! j)\<lparr>Enrollment := m\<rparr>"
    if "j < length (class_data # rest)" for j
  proof (cases j)
    case 0
    with n show ?thesis by simp
  next
    case (Suc j')
    with that rs(3) show ?thesis by simp
  qed
  with n rs(1,2) show ?case by simp
qed

lemma split_by_all_sep: "list_all sep s \<Longrightarrow> split_by sep [] s = []"
  using split_by_trailing [of sep s "[]" "[]"] by simp

lemma set_py_strip: "set (py_strip s) \<subseteq> set s"
proof -
  have "set (py_strip s) \<subseteq> set (rev (dropWhile is_space s))"
    unfolding py_strip_def set_rev by (auto dest: set_dropWhileD)
  also have "\<dots> \<subseteq> set s" by (auto dest: set_dropWhileD)
  finally show ?thesis .
qed

lemma findall_digits_none: "\<not> list_ex is_digit text \<Longrightarrow> findall_digits (py_strip text) = []"
proof -
  assume "\<not> list_ex is_digit text"
  then have "list_all (\<lambda>c. \<not> is_digit c) (py_strip text)"
    using set_py_strip [of "text"] by (auto simp: list_all_iff list_ex_iff)
  then show ?thesis unfolding findall_digits_def by (rule split_by_all_sep)
qed

lemma first_located_SomeD: "first_located f is = Some el \<Longrightarrow> \<exists>i\<in>set is. f i = Inr el"
  by (induction "is") (auto split: sum.splits)

lemma get_course_enrollment_never_raises:
  "\<exists>n c. get_course_enrollment page link = Inr (n, c)"
  by (simp add: get_course_enrollment_def Let_def split: option.splits)

lemma get_course_enrollment_failure_zero:
  assumes "nav_result page \<noteq> None \<or> desktop_nothing_found page"
  shows "\<exists>c. get_course_enrollment page link = Inr (0, c)"
proof (cases "link = None \<or> link = Some [] \<or> nav_result page \<noteq> None")
  case True
  then show ?thesis by (auto simp: get_course_enrollment_def split: option.splits)
next
  case False
  with assms have nf: "desktop_nothing_found page" by blast
  have "(case first_located (located page) [0, 1, 2, 3, 4] of
           None \<Rightarrow> 0
         | Some (Inl e) \<Rightarrow> 0
         | Some (Inr text) \<Rightarrow>
             (case findall_digits (py_strip text) of [] \<Rightarrow> 0 | n # _ \<Rightarrow> int_of_digits n)) = 0"
  proof (cases "first_located (located page) [0, 1, 2, 3, 4]")
    case None
    then show ?thesis by simp
  next
    case (Some el)
    then obtain i where i: "i \<in> set [0, 1, 2, 3, 4]" "located page i = Inr el"
      by (blast dest: first_located_SomeD)
    show ?thesis
    proof (cases el)
      case (Inl e)
      with Some show ?thesis by simp
    next
      case (Inr t)
      with nf i have "\<not> list_ex is_digit t"
        unfolding desktop_nothing_found_def list_all_iff by fastforce
      then have "findall_digits (py_strip t) = []" by (rule findall_digits_none)
      with Some Inr show ?thesis by simp
    qed
  qed
  with False show ?thesis
    by (auto simp: get_course_enrollment_def Let_def)
qed

lemma update_row_total:
  "\<exists>row'. update_row page row = Inr row'
      \<and> (enrolled row = 0 \<and> (nav_result page \<noteq> None \<or> desktop_nothing_found page)
           \<longrightarrow> enrolled row' = 0)"
proof (cases "course_link row = None \<or> course_link row = Some []")
  case True
  then show ?thesis by (auto simp: update_row_def)
next
  case False
  obtain n c where nc: "get_course_enrollment page (course_link row) = Inr (n, c)"
    using get_course_enrollment_never_raises by blast
  have "n = 0" if "nav_result page \<noteq> None \<or> desktop_nothing_found page"
    using get_course_enrollment_failure_zero [OF that, of "course_link row"] nc by simp
  with False nc show ?thesis by (auto simp: update_row_def)
qed

lemma fill_enrollment_total:
  "\<exists>rs. fill_enrollment driver i rows = Inr rs \<and> length rs = length rows
        \<and> (\<forall>j<length rows. update_row (driver (i + j)) (rows ! j) = Inr (rs ! j))"
proof (induction rows arbitrary: i)
  case Nil
  show ?case by simp
next
  case (Cons row rest)
  obtain row' where r: "update_row (driver i) row = Inr row'"
    using update_row_total by blast
  from Cons [of "Suc i"] obtain rs where
    rs: "fill_enrollment driver (Suc i) rest = Inr rs" "length rs = length rest"
      "\<forall>j<length rest. update_row (driver (Suc i + j)) (rest ! j) = Inr (rs ! j)"
    by blast
  have "update_row (driver (i + j)) ((row # rest) ! j) = Inr ((row' # rs) ! j)"
    if "j < length (row # rest)" for j
  proof (cases j)
    case 0
    with r show ?thesis by simp
  next
    case (Suc j')
    with that rs(3) show ?thesis by simp
  qed
  with r rs(1,2) show ?case by simp
qed

lemma parse_rows_enrolled: "r \<in> set (parse_rows subject trs) \<Longrightarrow> enrolled r = 0"
  by (auto simp: parse_rows_def List.map_filter_def parse_row_def Let_def
           split: option.splits if_splits)
text \<open>
  C9. Whatever the browser does, the enrollment loop of either variant runs over all
  rows and returns them all: an extraction that fails (an exception such as a timeout,
  no element found, or a text without a number) leaves 0 as the enrollment of its row,
  and every other row gets its own result. In the desktop variant the enrollment of a
  row is the placeholder 0 that \<open>parse_rows\<close> gave it when the row has no link.
\<close>

theorem extraction_failure_defaults_to_zero:
  "(\<exists>rs. web_fill_enrollment driver i data = Inr rs \<and> length rs = length data
       \<and> (\<forall>j<length data. \<exists>n. extract_enrollment_from_detail_page (driver (i + j)) = Inr n
                              \<and> rs ! j = (data ! j)\<lparr>Enrollment := n\<rparr>)
       \<and> (\<forall>j<length data.
             (get_result (driver (i + j)) \<noteq> None \<or> wait_result (driver (i + j)) \<noteq> None
              \<or> web_nothing_parsable (driver (i + j))
              \<or> (\<exists>e. extract_enrollment_body (driver (i + j)) = Inl e))
             \<longrightarrow> Enrollment (rs ! j) = 0))
   \<and> (\<exists>rs. fill_enrollment ddriver i rows = Inr rs \<and> length rs = length rows
       \<and> (\<forall>j<length rows. update_row (ddriver (i + j)) (rows ! j) = Inr (rs ! j))
       \<and> (\<forall>j<length rows.
             enrolled (rows ! j) = 0
             \<and> (nav_result (ddriver (i + j)) \<noteq> None \<or> desktop_nothing_found (ddriver (i + j)))
             \<longrightarrow> enrolled (rs ! j) = 0))
   \<and> (\<forall>r\<in>set (parse_rows subject trs). enrolled r = 0)"
proof (intro conjI)
  obtain rs where rs: "web_fill_enrollment driver i data = Inr rs" "length rs = length data"
    "\<forall>j<length data. \<exists>n. extract_enrollment_from_detail_page (driver (i + j)) = Inr n
                              \<and> rs ! j = (data ! j)\<lparr>Enrollment := n\<rparr>"
    using web_fill_enrollment_total by blast
  have "Enrollment (rs ! j) = 0"
    if j: "j < length data"
      and f: "get_result (driver (i + j)) \<noteq> None \<or> wait_result (driver (i + j)) \<noteq> None
              \<or> web_nothing_parsable (driver (i + j))
              \<or> (\<exists>e. extract_enrollment_body (driver (i + j)) = Inl e)" for j
  proof -
    from f have "extract_enrollment_from_detail_page (driver (i + j)) = Inr 0"
      using extract_failure_zero [of "driver (i + j)"] extract_exception_zero [of "driver (i + j)"]
      by blast
    moreover from rs(3) j obtain n where
      "extract_enrollment_from_detail_page (driver (i + j)) = Inr n"
      "rs ! j = (data ! j)\<lparr>Enrollment := n\<rparr>"
      by blast
    ultimately show ?thesis by simp
  qed
  with rs show "\<exists>rs. web_fill_enrollment driver i data = Inr rs \<and> length rs = length data
       \<and> (\<forall>j<length data. \<exists>n. extract_enrollment_from_detail_page (driver (i + j)) = Inr n
                              \<and> rs ! j = (data ! j)\<lparr>Enrollment := n\<rparr>)
       \<and> (\<forall>j<length data.
             (get_result (driver (i + j)) \<noteq> None \<or> wait_result (driver (i + j)) \<noteq> None
              \<or> web_nothing_parsable (driver (i + j))
              \<or> (\<exists>e. extract_enrollment_body (driver (i + j)) = Inl e))
             \<longrightarrow> Enrollment (rs ! j) = 0)"
    by blast
next
  obtain rs where rs: "fill_enrollment ddriver i rows = Inr rs" "length rs = length rows"
    "\<forall>j<length rows. update_row (ddriver (i + j)) (rows ! j) = Inr (rs ! j)"
    using fill_enrollment_total by blast
  have "enrolled (rs ! j) = 0"
    if j: "j < length rows"
      and f: "enrolled (rows ! j) = 0
             \<and> (nav_result (ddriver (i + j)) \<noteq> None \<or> desktop_nothing_found (ddriver (i + j)))"
    for j
  proof -
    from rs(3) j have "update_row (ddriver (i + j)) (rows ! j) = Inr (rs ! j)" by blast
    with f update_row_total [of "ddriver (i + j)" "rows ! j"] show ?thesis by auto
  qed
  with rs show "\<exists>rs. fill_enrollment ddriver i rows = Inr rs \<and> length rs = length rows
       \<and> (\<forall>j<length rows. update_row (ddriver (i + j)) (rows ! j) = Inr (rs ! j))
       \<and> (\<forall>j<length rows.
             enrolled (rows ! j) = 0
             \<and> (nav_result (ddriver (i + j)) \<noteq> None \<or> desktop_nothing_found (ddriver (i + j)))
             \<longrightarrow> enrolled (rs ! j) = 0)"
    by blast
next
  show "\<forall>r\<in>set (parse_rows subject trs). enrolled r = 0"
    using parse_rows_enrolled by blast
qed

theorem extraction_failure_defaults_to_zero_witness:
  "wait_result timeout_page \<noteq> None
   \<and> (\<exists>rs. web_fill_enrollment (\<lambda>j. if j = 0 then timeout_page else enrolled_page) 0
              (take 2 example_web_rows) = Inr rs
           \<and> length rs = length (take 2 example_web_rows))
   \<and> web_fill_enrollment (\<lambda>j. if j = 0 then timeout_page else enrolled_page) 0
        (take 2 example_web_rows)
       = Inr [(example_web_rows ! 0)\<lparr>Enrollment := 0\<rparr>, (example_web_rows ! 1)\<lparr>Enrollment := 25\<rparr>]
   \<and> desktop_nothing_found timeout_course_page
   \<and> (\<exists>rs. fill_enrollment (\<lambda>j. if j = 0 then timeout_course_page else enrolled_course_page) 0
              (map (\<lambda>r. r\<lparr>enrolled := 0, course_link := Some ''https://webapps.sfsu.edu/c''\<rparr>)
                   (take 2 example_rows)) = Inr rs
           \<and> map enrolled rs = [0, 25])"
proof -
  note th = extraction_failure_defaults_to_zero
    [of "\<lambda>j. if j = 0 then timeout_page else enrolled_page" 0 "take 2 example_web_rows"
        "\<lambda>j. if j = 0 then timeout_course_page else enrolled_course_page"
        "map (\<lambda>r. r\<lparr>enrolled := 0, course_link := Some ''https://webapps.sfsu.edu/c''\<rparr>)
             (take 2 example_rows)" "''FIN''" "[]"]
  from th have a: "\<exists>rs. web_fill_enrollment (\<lambda>j. if j = 0 then timeout_page else enrolled_page) 0
              (take 2 example_web_rows) = Inr rs
           \<and> length rs = length (take 2 example_web_rows)"
    by blast
  have b: "wait_result timeout_page \<noteq> None"
    by (simp add: timeout_page_def)
  have c: "web_fill_enrollment (\<lambda>j. if j = 0 then timeout_page else enrolled_page) 0
        (take 2 example_web_rows)
       = Inr [(example_web_rows ! 0)\<lparr>Enrollment := 0\<rparr>, (example_web_rows ! 1)\<lparr>Enrollment := 25\<rparr>]"
    by code_simp
  have d: "desktop_nothing_found timeout_course_page"
    by (simp add: desktop_nothing_found_def timeout_course_page_def)
  have e: "fill_enrollment (\<lambda>j. if j = 0 then timeout_course_page else enrolled_course_page) 0
              (map (\<lambda>r. r\<lparr>enrolled := 0, course_link := Some ''https://webapps.sfsu.edu/c''\<rparr>)
                   (take 2 example_rows))
           = Inr [(example_rows ! 0)\<lparr>enrolled := 0,
                     course_link := Some ''https://webapps.sfsu.edu/c''\<rparr>,
                  (example_rows ! 1)\<lparr>enrolled := 25,
                     course_link := Some ''https://webapps.sfsu.edu/c'',
                     course_code := ''FIN 350''\<rparr>]"
    by code_simp
  have f: "\<exists>rs. fill_enrollment (\<lambda>j. if j = 0 then timeout_course_page else enrolled_course_page) 0
              (map (\<lambda>r. r\<lparr>enrolled := 0, course_link := Some ''https://webapps.sfsu.edu/c''\<rparr>)
                   (take 2 example_rows)) = Inr rs
           \<and> map enrolled rs = [0, 25]"
    unfolding e by simp
  from a b c d f show ?thesis by (intro conjI)
qed

end
